theory Spec2Isabelle
  imports Complex_Main
begin

section \<open>Tensors, Python values and exceptions\<close>

text \<open>
  The module \<open>torchgeometry/augmentation/affine.py\<close> builds homogeneous matrices of 2D
  rotations and translations and hands them to a warping primitive. Its values are torch
  tensors: a shape and the entries in row-major order. The entries are idealised as real
  numbers. Every Python exception the module can raise is a value of \<open>error\<close>, and a
  function that can raise returns \<open>error + 'a\<close>, with \<open>Inl\<close> for the exception.
  \<open>ShapeError\<close> is the failure that the specification gives to the collaborator
  \<open>get_rotation_matrix2d\<close>, whose code is not part of the module. An \<open>assert\<close> is taken
  as executed: a condition that fails raises AssertionError.
\<close>

datatype error =
  TypeError | ValueError | AssertionError | AttributeError | IndexError | RuntimeError
  | ShapeError

record tensor =
  shape :: "nat list"
  data :: "real list"

text \<open>An argument of a Python call: \<open>None\<close>, a tensor, or a tuple of floats, which stands
  for the objects that are not tensors.\<close>

datatype pyobj = PyNone | PyTensor tensor | PyTuple "real list"

definition is_tensor :: "pyobj \<Rightarrow> bool" where
  "is_tensor x = (case x of PyTensor _ \<Rightarrow> True | _ \<Rightarrow> False)"

definition bind_result :: "error + 'a \<Rightarrow> ('a \<Rightarrow> error + 'b) \<Rightarrow> error + 'b" where
  "bind_result m f = (case m of Inl e \<Rightarrow> Inl e | Inr x \<Rightarrow> f x)"

definition ndimension :: "tensor \<Rightarrow> nat" where
  "ndimension t = length (shape t)"

definition numel :: "tensor \<Rightarrow> nat" where
  "numel t = prod_list (shape t)"

text \<open>Row-major addressing: \<open>ravel\<close> maps a multi-index to its offset, \<open>unravel\<close> is its
  inverse on the indices within the shape.\<close>

fun ravel :: "nat list \<Rightarrow> nat list \<Rightarrow> nat" where
  "ravel (n # s) (i # idx) = i * prod_list s + ravel s idx"
| "ravel _ _ = 0"

fun unravel :: "nat list \<Rightarrow> nat \<Rightarrow> nat list" where
  "unravel [] k = []"
| "unravel (n # s) k = (k div prod_list s) # unravel s (k mod prod_list s)"

definition elem :: "tensor \<Rightarrow> nat list \<Rightarrow> real" where
  "elem t idx = data t ! ravel (shape t) idx"

text \<open>The tensor of shape \<open>s\<close> whose entry at the multi-index \<open>idx\<close> is \<open>f idx\<close>.\<close>

definition tabulate :: "nat list \<Rightarrow> (nat list \<Rightarrow> real) \<Rightarrow> tensor" where
  "tabulate s f = \<lparr>shape = s, data = map (\<lambda>k. f (unravel s k)) [0..<prod_list s]\<rparr>"

subsection \<open>The torch operations the module calls\<close>

text \<open>\<open>-t\<close>: the entries negated.\<close>

definition neg :: "tensor \<Rightarrow> tensor" where
  "neg t = t\<lparr>data := map uminus (data t)\<rparr>"

text \<open>\<open>torch.cat([a, b])\<close> of two tensors of rank 1.\<close>

definition cat :: "tensor \<Rightarrow> tensor \<Rightarrow> tensor" where
  "cat a b = \<lparr>shape = [numel a + numel b], data = data a @ data b\<rparr>"

text \<open>\<open>bool(t < 0)\<close>: the comparison is elementwise, and the truth value of a tensor
  exists only when it has exactly one element; otherwise torch raises RuntimeError.\<close>

definition bool_lt0 :: "tensor \<Rightarrow> error + bool" where
  "bool_lt0 t = (if numel t = 1 then Inr (data t ! 0 < 0) else Inl RuntimeError)"

text \<open>\<open>torch.ones_like(t)\<close>.\<close>

definition ones_like :: "tensor \<Rightarrow> tensor" where
  "ones_like t = tabulate (shape t) (\<lambda>_. 1)"

text \<open>\<open>F.pad(t, (0, 0, 0, 1), "constant", 0.0)\<close>: the last dimension is padded by nothing,
  the one before it by one row of zeros at its end. Four padding widths need a tensor of
  rank 2 at least.\<close>

definition pad_row :: "tensor \<Rightarrow> error + tensor" where
  "pad_row t =
     (let r = length (shape t) in
      if r < 2 then Inl RuntimeError
      else Inr (tabulate ((shape t)[r - 2 := Suc (shape t ! (r - 2))])
                  (\<lambda>idx. if idx ! (r - 2) < shape t ! (r - 2) then elem t idx else 0)))"

text \<open>\<open>t[..., -1, -1] += 1.\<close>: the index \<open>-1\<close> does not exist in a dimension of size 0.\<close>

definition incr_last :: "tensor \<Rightarrow> error + tensor" where
  "incr_last t =
     (let r = length (shape t) in
      if r < 2 then Inl IndexError
      else if shape t ! (r - 2) = 0 \<or> shape t ! (r - 1) = 0 then Inl IndexError
      else Inr (tabulate (shape t)
                  (\<lambda>idx. elem t idx +
                     (if idx ! (r - 2) = shape t ! (r - 2) - 1 \<and>
                         idx ! (r - 1) = shape t ! (r - 1) - 1 then 1 else 0))))"

text \<open>\<open>t.repeat(n, 1, 1)\<close> of a tensor of rank 3.\<close>

definition repeat_batch :: "nat \<Rightarrow> tensor \<Rightarrow> tensor" where
  "repeat_batch n t =
     tabulate [n * (shape t ! 0), shape t ! 1, shape t ! 2]
       (\<lambda>idx. elem t [idx ! 0 mod (shape t ! 0), idx ! 1, idx ! 2])"

text \<open>\<open>t.narrow(-1, start, len)\<close>: the entries \<open>start \<le> j < start + len\<close> of the last
  dimension.\<close>

definition narrow_last :: "nat \<Rightarrow> nat \<Rightarrow> tensor \<Rightarrow> tensor" where
  "narrow_last start len t =
     tabulate (butlast (shape t) @ [len]) (\<lambda>idx. elem t (butlast idx @ [last idx + start]))"

text \<open>\<open>dx, dy = torch.chunk(t, chunks=2, dim=-1)\<close>: the last dimension of size \<open>n\<close> is cut
  into pieces of size \<open>(n + 1) div 2\<close>. With \<open>n = 1\<close> there is one piece only and the
  unpacking raises ValueError; with \<open>n = 0\<close> there are two empty pieces; a tensor of rank
  0 cannot be chunked.\<close>

definition chunk2 :: "tensor \<Rightarrow> error + tensor \<times> tensor" where
  "chunk2 t =
     (if shape t = [] then Inl RuntimeError
      else let n = last (shape t); c = (n + 1) div 2 in
        if n = 1 then Inl ValueError
        else Inr (narrow_last 0 c t, narrow_last c (n - c) t))"

text \<open>\<open>m[..., row, 2:3] += d\<close> for \<open>m\<close> of shape \<open>(B, 3, 3)\<close>: the view on the left has
  shape \<open>(B, 1)\<close>, and an addition in place needs \<open>d\<close> to broadcast to that shape.\<close>

definition iadd_col :: "nat \<Rightarrow> tensor \<Rightarrow> tensor \<Rightarrow> error + tensor" where
  "iadd_col row m d =
     (let upd = (\<lambda>g. tabulate (shape m)
                   (\<lambda>idx. elem m idx + (if idx ! 1 = row \<and> idx ! 2 = 2 then g (idx ! 0) else 0)))
      in case shape d of
           [] \<Rightarrow> Inr (upd (\<lambda>b. elem d []))
         | [k] \<Rightarrow> if k = 1 then Inr (upd (\<lambda>b. elem d [0])) else Inl RuntimeError
         | [a, k] \<Rightarrow>
             if k = 1 \<and> (a = shape m ! 0 \<or> a = 1)
             then Inr (upd (\<lambda>b. elem d [if a = 1 then 0 else b, 0]))
             else Inl RuntimeError
         | _ \<Rightarrow> Inl RuntimeError)"

text \<open>\<open>m[..., :2, :3]\<close>: the ellipsis with two slices needs rank 2 at least; a slice
  beyond the size of a dimension is cut to that size.\<close>

definition slice_2x3 :: "tensor \<Rightarrow> error + tensor" where
  "slice_2x3 t =
     (let r = length (shape t) in
      if r < 2 then Inl IndexError
      else Inr (tabulate ((shape t)[r - 2 := min 2 (shape t ! (r - 2)),
                                    r - 1 := min 3 (shape t ! (r - 1))])
                  (elem t)))"

text \<open>Broadcasting of two shapes, aligned at their last dimensions.\<close>

fun broadcast_rev :: "nat list \<Rightarrow> nat list \<Rightarrow> nat list option" where
  "broadcast_rev [] ys = Some ys"
| "broadcast_rev xs [] = Some xs"
| "broadcast_rev (x # xs) (y # ys) =
     (if x = y \<or> y = 1 then map_option ((#) x) (broadcast_rev xs ys)
      else if x = 1 then map_option ((#) y) (broadcast_rev xs ys)
      else None)"

definition broadcast_shapes :: "nat list \<Rightarrow> nat list \<Rightarrow> nat list option" where
  "broadcast_shapes a b = map_option rev (broadcast_rev (rev a) (rev b))"

text \<open>The index into an operand of batch shape \<open>s\<close> that the index \<open>bi\<close> of the broadcast
  batch reads: a dimension of size 1 is read at 0.\<close>

definition broadcast_index :: "nat list \<Rightarrow> nat list \<Rightarrow> nat list" where
  "broadcast_index s bi =
     map2 (\<lambda>n i. if n = 1 then 0 else i) s (drop (length bi - length s) bi)"

text \<open>\<open>torch.matmul(a, b)\<close>. A tensor of rank 1 is a row on the left and a column on the
  right, and the dimension added for it is removed from the result; the dimensions before
  the last two are batch dimensions and broadcast. Tensors of rank 0, unequal inner
  dimensions and batch shapes that do not broadcast raise RuntimeError.\<close>

definition matmul :: "tensor \<Rightarrow> tensor \<Rightarrow> error + tensor" where
  "matmul a b =
     (if shape a = [] \<or> shape b = [] then Inl RuntimeError
      else
        let va = (length (shape a) = 1); vb = (length (shape b) = 1);
            sa = (if va then 1 # shape a else shape a);
            sb = (if vb then shape b @ [1] else shape b);
            ba = take (length sa - 2) sa; bb = take (length sb - 2) sb;
            n = sa ! (length sa - 2); k = last sa; m = last sb
        in if sb ! (length sb - 2) \<noteq> k then Inl RuntimeError
           else case broadcast_shapes ba bb of
                  None \<Rightarrow> Inl RuntimeError
                | Some bs \<Rightarrow>
                    Inr (tabulate (bs @ (if va then [] else [n]) @ (if vb then [] else [m]))
                      (\<lambda>idx.
                         let bi = take (length bs) idx;
                             i = (if va then 0 else idx ! length bs);
                             j = (if vb then 0 else last idx)
                         in sum_list (map (\<lambda>l.
                              data a ! ravel sa (broadcast_index ba bi @ [i, l]) *
                              data b ! ravel sb (broadcast_index bb bi @ [l, j])) [0..<k]))))"

text \<open>\<open>t.expand(n, -1)\<close>: two sizes are given, so the rank is at most 2, and \<open>-1\<close> keeps
  the size of a dimension that exists; a first dimension is kept when it has size \<open>n\<close> and
  repeated when it has size 1.\<close>

definition expand2 :: "tensor \<Rightarrow> nat \<Rightarrow> error + tensor" where
  "expand2 t n =
     (case shape t of
        [k] \<Rightarrow> Inr (tabulate [n, k] (\<lambda>idx. elem t [idx ! 1]))
      | [m, k] \<Rightarrow>
          if m = n then Inr t
          else if m = 1 then Inr (tabulate [n, k] (\<lambda>idx. elem t [0, idx ! 1]))
          else Inl RuntimeError
      | _ \<Rightarrow> Inl RuntimeError)"

text \<open>\<open>torch.unsqueeze(t, dim=0)\<close> and \<open>torch.squeeze(t, dim=0)\<close>; the latter removes the
  first dimension only when its size is 1.\<close>

definition unsqueeze0 :: "tensor \<Rightarrow> tensor" where
  "unsqueeze0 t = t\<lparr>shape := 1 # shape t\<rparr>"

definition squeeze0 :: "tensor \<Rightarrow> tensor" where
  "squeeze0 t = (case shape t of [] \<Rightarrow> t | n # s \<Rightarrow> if n = 1 then t\<lparr>shape := s\<rparr> else t)"

text \<open>The random source. \<open>t.uniform_(lo, hi)\<close> overwrites every entry of \<open>t\<close> with a draw
  from the process-wide generator; \<open>rng k\<close> is the \<open>k\<close>-th draw of the call from the unit
  interval, which torch scales to \<open>lo + u * (hi - lo)\<close>.\<close>

definition uniform_fill :: "(nat \<Rightarrow> real) \<Rightarrow> real \<Rightarrow> real \<Rightarrow> tensor \<Rightarrow> tensor" where
  "uniform_fill rng lo hi t = t\<lparr>data := map (\<lambda>k. lo + rng k * (hi - lo)) [0..<numel t]\<rparr>"

text \<open>\<open>v = t.tolist()\<close> followed by the use of \<open>v[0]\<close> and \<open>v[1]\<close> as the two float bounds of
  \<open>uniform_\<close>. The list of a tensor of rank 0 is a float, which has no items; a list with
  fewer than two items has no \<open>v[1]\<close> (or no \<open>v[0]\<close>); the items of a tensor of rank 2 or
  more are lists, which \<open>uniform_\<close> rejects.\<close>

definition tolist_bounds :: "tensor \<Rightarrow> error + real \<times> real" where
  "tolist_bounds t =
     (case shape t of
        [] \<Rightarrow> Inl TypeError
      | [n] \<Rightarrow> if n < 2 then Inl IndexError else Inr (data t ! 0, data t ! 1)
      | n # _ # _ \<Rightarrow> if n < 2 then Inl IndexError else Inl TypeError)"

section \<open>The collaborators\<close>

type_synonym rot2d = "real \<Rightarrow> real \<Rightarrow> real \<Rightarrow> real \<Rightarrow> nat \<Rightarrow> nat \<Rightarrow> real"

text \<open>
  Modelled from the spec: \<open>get_rotation_matrix2d\<close> of \<open>torchgeometry.core\<close> is imported by
  the module and is not among its sources. The specification describes it as
  \<open>get_rotation_matrix2d(center, angle, scale) -> 2x3 matrix batch\<close>, which "builds a
  similarity rotation matrix about an arbitrary center", with a center that is a 2-vector
  per batch element and an angle that is a scalar per batch element, and lets it fail
  with a shape error if the batch sizes of angle and center differ. The specification
  gives no formula for the six entries, so they are the parameter \<open>rot2d cx cy angle
  scale i j\<close>.
\<close>

definition get_rotation_matrix2d :: "rot2d \<Rightarrow> tensor \<Rightarrow> tensor \<Rightarrow> tensor \<Rightarrow> error + tensor" where
  "get_rotation_matrix2d rot2d center angle scale =
     (case shape angle of
        [B] \<Rightarrow>
          if shape center = [B, 2] \<and> shape scale = [B]
          then Inr (tabulate [B, 2, 3]
                 (\<lambda>idx. rot2d (elem center [idx ! 0, 0]) (elem center [idx ! 0, 1])
                          (elem angle [idx ! 0]) (elem scale [idx ! 0]) (idx ! 1) (idx ! 2)))
          else Inl ShapeError
      | _ \<Rightarrow> Inl ShapeError)"

type_synonym resample = "tensor \<Rightarrow> tensor \<Rightarrow> nat list \<Rightarrow> nat list \<Rightarrow> real"

text \<open>
  Modelled from the spec: \<open>warp_affine\<close> of \<open>torchgeometry.core\<close> is imported by the module
  and is not among its sources. The specification describes it as
  \<open>warp_affine(image_batch, affine_2x3_batch, output_size) -> image_batch\<close>, which
  "resamples images under the given affine map to the given output size, same
  dtype/channel count as input". The interpolation is out of the module's scope, so
  the value of a pixel of the result is the parameter \<open>resample\<close>.
\<close>

definition warp_affine :: "resample \<Rightarrow> tensor \<Rightarrow> tensor \<Rightarrow> nat list \<Rightarrow> tensor" where
  "warp_affine resample src M dsize =
     tabulate (take 2 (shape src) @ dsize) (resample src M dsize)"

section \<open>The matrix builders\<close>

text \<open>\<open>height, width = tensor.shape[-2:]\<close> needs two dimensions to unpack; the
  subtraction \<open>width - 1\<close> is on Python integers.\<close>

definition compute_rotation_center :: "tensor \<Rightarrow> error + tensor" where
  "compute_rotation_center t =
     (let r = length (shape t) in
      if r < 2 then Inl ValueError
      else Inr \<lparr>shape = [2],
                data = [real_of_int (int (shape t ! (r - 1)) - 1) / 2,
                        real_of_int (int (shape t ! (r - 2)) - 1) / 2]\<rparr>)"

definition convert_matrix2d_to_homogeneous :: "tensor \<Rightarrow> error + tensor" where
  "convert_matrix2d_to_homogeneous matrix = bind_result (pad_row matrix) incr_last"

text \<open>\<open>torch.eye(3)[None]\<close>.\<close>

definition identity_matrix :: tensor where
  "identity_matrix = tabulate [1, 3, 3] (\<lambda>idx. if idx ! 1 = idx ! 2 then 1 else 0)"

definition rotation_matrix :: "rot2d \<Rightarrow> tensor \<Rightarrow> tensor \<Rightarrow> error + tensor" where
  "rotation_matrix rot2d angle center =
     bind_result (get_rotation_matrix2d rot2d center angle (ones_like angle))
       convert_matrix2d_to_homogeneous"

text \<open>\<open>translation.shape[0]\<close> does not exist for a tensor of rank 0.\<close>

definition translation_matrix :: "tensor \<Rightarrow> error + tensor" where
  "translation_matrix translation =
     (case shape translation of
        [] \<Rightarrow> Inl IndexError
      | B # _ \<Rightarrow>
          bind_result (chunk2 translation) (\<lambda>(dx, dy).
            bind_result (iadd_col 0 (repeat_batch B identity_matrix) dx) (\<lambda>matrix.
              iadd_col 1 matrix dy)))"

section \<open>The matrix wrappers\<close>

record TranslationMatrix =
  tm_translation :: "tensor option"
  tm_matrix :: "tensor option"

definition TranslationMatrix_generate_matrix :: "TranslationMatrix \<Rightarrow> error + tensor" where
  "TranslationMatrix_generate_matrix self =
     (case tm_translation self of
        None \<Rightarrow> Inl AssertionError
      | Some t \<Rightarrow> translation_matrix t)"

definition TranslationMatrix_init :: "tensor option \<Rightarrow> error + TranslationMatrix" where
  "TranslationMatrix_init translation =
     bind_result
       (TranslationMatrix_generate_matrix \<lparr>tm_translation = translation, tm_matrix = None\<rparr>)
       (\<lambda>m. Inr \<lparr>tm_translation = translation, tm_matrix = Some m\<rparr>)"

definition TranslationMatrix_affine :: "TranslationMatrix \<Rightarrow> error + tensor" where
  "TranslationMatrix_affine self =
     (case tm_matrix self of None \<Rightarrow> Inl AssertionError | Some m \<Rightarrow> slice_2x3 m)"

definition TranslationMatrix_forward :: "TranslationMatrix \<Rightarrow> tensor \<Rightarrow> error + tensor" where
  "TranslationMatrix_forward self input =
     (case tm_matrix self of None \<Rightarrow> Inl AssertionError | Some m \<Rightarrow> matmul m input)"

record RotationMatrix =
  rm_angle :: "tensor option"
  rm_center :: "tensor option"
  rm_matrix :: "tensor option"

definition RotationMatrix_generate_matrix :: "rot2d \<Rightarrow> RotationMatrix \<Rightarrow> error + tensor" where
  "RotationMatrix_generate_matrix rot2d self =
     (case rm_angle self of
        None \<Rightarrow> Inl AssertionError
      | Some a \<Rightarrow>
          (case rm_center self of
             None \<Rightarrow> Inl AssertionError
           | Some c \<Rightarrow> rotation_matrix rot2d a c))"

definition RotationMatrix_init ::
  "rot2d \<Rightarrow> tensor option \<Rightarrow> tensor option \<Rightarrow> error + RotationMatrix" where
  "RotationMatrix_init rot2d angle center =
     bind_result
       (RotationMatrix_generate_matrix rot2d
          \<lparr>rm_angle = angle, rm_center = center, rm_matrix = None\<rparr>)
       (\<lambda>m. Inr \<lparr>rm_angle = angle, rm_center = center, rm_matrix = Some m\<rparr>)"

definition RotationMatrix_affine :: "RotationMatrix \<Rightarrow> error + tensor" where
  "RotationMatrix_affine self =
     (case rm_matrix self of None \<Rightarrow> Inl AssertionError | Some m \<Rightarrow> slice_2x3 m)"

definition RotationMatrix_forward :: "RotationMatrix \<Rightarrow> tensor \<Rightarrow> error + tensor" where
  "RotationMatrix_forward self input =
     (case rm_matrix self of None \<Rightarrow> Inl AssertionError | Some m \<Rightarrow> matmul m input)"

section \<open>The random matrix wrappers\<close>

record RandomRotationMatrix =
  rrm_degrees :: tensor
  rrm_center :: "tensor option"
  rrm_angle :: "tensor option"
  rrm_matrix :: "tensor option"

text \<open>\<open>RandomRotationMatrix.__init__(degrees, center=None)\<close>. The branch is chosen by the
  rank \<open>len(degrees.shape)\<close>.\<close>

definition RandomRotationMatrix_init ::
  "tensor \<Rightarrow> tensor option \<Rightarrow> error + RandomRotationMatrix" where
  "RandomRotationMatrix_init degrees center =
     (if length (shape degrees) = 1 then
        bind_result (bool_lt0 degrees) (\<lambda>negative.
          if negative then Inl ValueError
          else Inr \<lparr>rrm_degrees = cat (neg degrees) degrees, rrm_center = center,
                    rrm_angle = None, rrm_matrix = None\<rparr>)
      else if length (shape degrees) \<noteq> 2 then Inl ValueError
      else Inr \<lparr>rrm_degrees = degrees, rrm_center = center,
                rrm_angle = None, rrm_matrix = None\<rparr>)"

text \<open>\<open>_generate_params(num_samples)\<close>: the tensor that is filled with draws is
  \<open>torch.tensor([float(num_samples)])\<close>, the list of the one number \<open>num_samples\<close>.\<close>

definition RandomRotationMatrix_generate_params ::
  "(nat \<Rightarrow> real) \<Rightarrow> RandomRotationMatrix \<Rightarrow> nat \<Rightarrow> error + tensor" where
  "RandomRotationMatrix_generate_params rng self num_samples =
     bind_result (tolist_bounds (rrm_degrees self)) (\<lambda>(lo, hi).
       Inr (uniform_fill rng lo hi \<lparr>shape = [1], data = [real num_samples]\<rparr>))"

text \<open>A method that assigns to a field of \<open>self\<close> returns the object next to its result;
  an exception leaves the assignments made before it.\<close>

definition RandomRotationMatrix_generate_matrix ::
  "rot2d \<Rightarrow> (nat \<Rightarrow> real) \<Rightarrow> RandomRotationMatrix \<Rightarrow> nat
     \<Rightarrow> (error + tensor) \<times> RandomRotationMatrix" where
  "RandomRotationMatrix_generate_matrix rot2d rng self num_samples =
     (case rrm_center self of
        None \<Rightarrow> (Inl AssertionError, self)
      | Some c \<Rightarrow>
          (case RandomRotationMatrix_generate_params rng self num_samples of
             Inl e \<Rightarrow> (Inl e, self)
           | Inr a \<Rightarrow> (rotation_matrix rot2d a c, self\<lparr>rrm_angle := Some a\<rparr>)))"

definition RandomRotationMatrix_affine :: "RandomRotationMatrix \<Rightarrow> error + tensor" where
  "RandomRotationMatrix_affine self =
     (case rrm_matrix self of None \<Rightarrow> Inl AssertionError | Some m \<Rightarrow> slice_2x3 m)"

definition RandomRotationMatrix_forward ::
  "rot2d \<Rightarrow> (nat \<Rightarrow> real) \<Rightarrow> RandomRotationMatrix \<Rightarrow> tensor
     \<Rightarrow> (error + tensor) \<times> RandomRotationMatrix" where
  "RandomRotationMatrix_forward rot2d rng self input =
     (if length (shape input) \<noteq> 3 then (Inl AssertionError, self)
      else if rrm_center self = None then (Inl AssertionError, self)
      else
        (case RandomRotationMatrix_generate_matrix rot2d rng self (shape input ! 0) of
           (Inl e, self') \<Rightarrow> (Inl e, self')
         | (Inr m, self') \<Rightarrow> (matmul input m, self'\<lparr>rrm_matrix := Some m\<rparr>)))"

record RandomTranslationMatrix =
  rtm_translation :: tensor
  rtm_matrix :: "tensor option"

definition RandomTranslationMatrix_init :: "tensor \<Rightarrow> error + RandomTranslationMatrix" where
  "RandomTranslationMatrix_init translation =
     (if length (shape translation) \<noteq> 1 then Inl ValueError
      else if shape translation ! 0 = 1
        then Inr \<lparr>rtm_translation = cat (neg translation) translation, rtm_matrix = None\<rparr>
      else if shape translation ! 0 = 2
        then Inr \<lparr>rtm_translation = translation, rtm_matrix = None\<rparr>
      else Inl ValueError)"

text \<open>\<open>torch.zeros(num_samples, 2).uniform_(lo, hi)\<close>.\<close>

definition RandomTranslationMatrix_generate_params ::
  "(nat \<Rightarrow> real) \<Rightarrow> RandomTranslationMatrix \<Rightarrow> nat \<Rightarrow> error + tensor" where
  "RandomTranslationMatrix_generate_params rng self num_samples =
     bind_result (tolist_bounds (rtm_translation self)) (\<lambda>(lo, hi).
       Inr (uniform_fill rng lo hi
              \<lparr>shape = [num_samples, 2], data = replicate (num_samples * 2) 0\<rparr>))"

text \<open>\<open>_generate_matrix\<close> stores the sample in \<open>self.translation\<close>, the field that holds
  the range.\<close>

definition RandomTranslationMatrix_generate_matrix ::
  "(nat \<Rightarrow> real) \<Rightarrow> RandomTranslationMatrix \<Rightarrow> nat
     \<Rightarrow> (error + tensor) \<times> RandomTranslationMatrix" where
  "RandomTranslationMatrix_generate_matrix rng self num_samples =
     (case RandomTranslationMatrix_generate_params rng self num_samples of
        Inl e \<Rightarrow> (Inl e, self)
      | Inr t \<Rightarrow> (translation_matrix t, self\<lparr>rtm_translation := t\<rparr>))"

definition RandomTranslationMatrix_affine :: "RandomTranslationMatrix \<Rightarrow> error + tensor" where
  "RandomTranslationMatrix_affine self =
     (case rtm_matrix self of None \<Rightarrow> Inl AssertionError | Some m \<Rightarrow> slice_2x3 m)"

definition RandomTranslationMatrix_forward ::
  "(nat \<Rightarrow> real) \<Rightarrow> RandomTranslationMatrix \<Rightarrow> tensor
     \<Rightarrow> (error + tensor) \<times> RandomTranslationMatrix" where
  "RandomTranslationMatrix_forward rng self input =
     (if length (shape input) \<noteq> 3 then (Inl AssertionError, self)
      else
        (case RandomTranslationMatrix_generate_matrix rng self (shape input ! 0) of
           (Inl e, self') \<Rightarrow> (Inl e, self')
         | (Inr m, self') \<Rightarrow> (matmul input m, self'\<lparr>rtm_matrix := Some m\<rparr>)))"

section \<open>The operations on images\<close>

text \<open>\<open>affine(tensor, matrix)\<close>; \<open>tensor.shape[-2:]\<close> is the last two dimensions.\<close>

definition affine :: "resample \<Rightarrow> tensor \<Rightarrow> tensor \<Rightarrow> tensor" where
  "affine resample tensor matrix =
     (let is_unbatched = (ndimension tensor = 3);
          tensor' = (if is_unbatched then unsqueeze0 tensor else tensor);
          warped = warp_affine resample tensor' matrix
                     (drop (length (shape tensor') - 2) (shape tensor'))
      in if is_unbatched then squeeze0 warped else warped)"

text \<open>The checks at the head of \<open>rotate(tensor, angle, center=None)\<close>, in the order of the
  source; they return the two tensors when none of them raises. The third check reads
  \<open>center is not None and not torch.is_tensor(angle)\<close>. In the last check
  \<open>angle.shape[0]\<close> is evaluated only for a tensor of rank 4, and raises IndexError for an
  angle of rank 0.\<close>

definition rotate_checks :: "pyobj \<Rightarrow> pyobj \<Rightarrow> pyobj \<Rightarrow> error + tensor \<times> tensor" where
  "rotate_checks tensor angle center =
     (case tensor of
        PyTensor t \<Rightarrow>
          (case angle of
             PyTensor a \<Rightarrow>
               if center \<noteq> PyNone \<and> \<not> is_tensor angle then Inl TypeError
               else if length (shape t) \<notin> {3, 4} then Inl ValueError
               else if length (shape t) = 3 \<and> length (shape a) \<noteq> 1 then Inl ValueError
               else if length (shape t) = 4 \<and> shape a = [] then Inl IndexError
               else if length (shape t) = 4 \<and> shape t ! 0 \<noteq> shape a ! 0 then Inl ValueError
               else Inr (t, a)
           | _ \<Rightarrow> Inl TypeError)
      | _ \<Rightarrow> Inl TypeError)"

text \<open>\<open>rotate\<close>, named \<open>rotate_tensor\<close> since \<open>rotate\<close> is a function on lists in HOL:
  the checks, then the center (a tuple has no attribute \<open>expand\<close>), the rotation matrix
  and the warp.\<close>

definition rotate_tensor ::
  "rot2d \<Rightarrow> resample \<Rightarrow> pyobj \<Rightarrow> pyobj \<Rightarrow> pyobj \<Rightarrow> error + tensor" where
  "rotate_tensor rot2d resample tensor angle center =
     bind_result (rotate_checks tensor angle center) (\<lambda>(t, a).
       bind_result
         (case center of
            PyNone \<Rightarrow> compute_rotation_center t
          | PyTensor c \<Rightarrow> Inr c
          | PyTuple _ \<Rightarrow> Inl AttributeError) (\<lambda>c.
         bind_result (expand2 c (shape a ! 0)) (\<lambda>c'.
           bind_result (RotationMatrix_init rot2d (Some a) (Some c')) (\<lambda>rotation_matrix.
             bind_result (RotationMatrix_affine rotation_matrix) (\<lambda>m.
               Inr (affine resample t m))))))"

section \<open>Notions used in the statements\<close>

text \<open>\<open>A\<close> is the batch of the top-left 2x3 submatrices of the batch \<open>M\<close> of 3x3
  matrices.\<close>

definition top_left_2x3 :: "tensor \<Rightarrow> tensor \<Rightarrow> bool" where
  "top_left_2x3 A M \<longleftrightarrow>
     shape A = [shape M ! 0, 2, 3] \<and>
     (\<forall>b<shape M ! 0. \<forall>i<2. \<forall>j<3. elem A [b, i, j] = elem M [b, i, j])"

text \<open>A caller that applies the same RandomRotationMatrix to one input after the other,
  each call with its own draws; it returns the results of the calls and the object left
  by the last one.\<close>

fun RandomRotationMatrix_forward_calls ::
  "rot2d \<Rightarrow> RandomRotationMatrix \<Rightarrow> ((nat \<Rightarrow> real) \<times> tensor) list
     \<Rightarrow> (error + tensor) list \<times> RandomRotationMatrix" where
  "RandomRotationMatrix_forward_calls rot2d self [] = ([], self)"
| "RandomRotationMatrix_forward_calls rot2d self ((rng, input) # calls) =
     (case RandomRotationMatrix_forward rot2d rng self input of
        (r, self') \<Rightarrow>
          (case RandomRotationMatrix_forward_calls rot2d self' calls of
             (rs, self'') \<Rightarrow> (r # rs, self'')))"

section \<open>Properties\<close>

subsection \<open>Addressing and the matrix product\<close>

lemma ravel_bound:
  "list_all2 (<) idx s \<Longrightarrow> ravel s idx < prod_list s"
proof (induction idx s rule: list_all2_induct)
  case Nil
  show ?case by simp
next
  case (Cons i idx n s)
  have "i * prod_list s + ravel s idx < i * prod_list s + prod_list s"
    using Cons.IH by simp
  also have "\<dots> = Suc i * prod_list s" by simp
  also have "\<dots> \<le> n * prod_list s"
    using Cons.hyps(1) by (intro mult_le_mono1) simp
  finally show ?case by simp
qed

lemma unravel_ravel:
  "list_all2 (<) idx s \<Longrightarrow> unravel s (ravel s idx) = idx"
proof (induction idx s rule: list_all2_induct)
  case Nil
  show ?case by simp
next
  case (Cons i idx n s)
  have "ravel s idx < prod_list s" using Cons.hyps(2) by (rule ravel_bound)
  then show ?case using Cons.IH by simp
qed

lemma shape_tabulate [simp]: "shape (tabulate s f) = s"
  by (simp add: tabulate_def)

lemma elem_tabulate:
  "list_all2 (<) idx s \<Longrightarrow> elem (tabulate s f) idx = f idx"
  by (simp add: elem_def tabulate_def ravel_bound unravel_ravel)

lemma length_data_tabulate [simp]: "length (data (tabulate s f)) = prod_list s"
  by (simp add: tabulate_def)

lemma elem_tabulate3 [simp]:
  "b < B \<Longrightarrow> i < R \<Longrightarrow> j < C \<Longrightarrow> elem (tabulate [B, R, C] f) [b, i, j] = f [b, i, j]"
  by (rule elem_tabulate) simp

lemma elem_tabulate2 [simp]:
  "i < R \<Longrightarrow> j < C \<Longrightarrow> elem (tabulate [R, C] f) [i, j] = f [i, j]"
  by (rule elem_tabulate) simp

lemma elem_tabulate1 [simp]:
  "i < R \<Longrightarrow> elem (tabulate [R] f) [i] = f [i]"
  by (rule elem_tabulate) simp

lemma upt3: "[0..<3] = [0, 1, 2]"
  by (simp add: upt_rec)

lemma matmul_vec:
  assumes "shape M = [B, 3, 3]" "shape p = [3]"
  shows "\<exists>q. matmul M p = Inr q \<and> shape q = [B, 3] \<and>
     (\<forall>b<B. \<forall>i<3. elem q [b, i] =
        elem M [b, i, 0] * elem p [0] + elem M [b, i, 1] * elem p [1] + elem M [b, i, 2] * elem p [2])"
  using assms
  apply (clarsimp simp: matmul_def Let_def broadcast_shapes_def broadcast_index_def upt3)
  apply (auto simp: elem_def numeral_2_eq_2)
  done

lemma matmul_col:
  assumes "shape M = [B, 3, 3]" "shape p = [B, 3, 1]"
  shows "\<exists>q. matmul M p = Inr q \<and> shape q = [B, 3, 1] \<and>
     (\<forall>b<B. \<forall>i<3. elem q [b, i, 0] =
        elem M [b, i, 0] * elem p [b, 0, 0] + elem M [b, i, 1] * elem p [b, 1, 0]
        + elem M [b, i, 2] * elem p [b, 2, 0])"
  using assms
  apply (clarsimp simp: matmul_def Let_def broadcast_shapes_def broadcast_index_def upt3)
  apply (auto simp: elem_def)
  done

lemma translation_matrix_B2:
  assumes "shape t = [B, 2]"
  shows "\<exists>M. translation_matrix t = Inr M \<and> shape M = [B, 3, 3] \<and>
     (\<forall>b<B. \<forall>i<3. \<forall>j<3. elem M [b, i, j] =
        (if i = j then 1 else 0) +
        (if i = 0 \<and> j = 2 then elem t [b, 0] else if i = 1 \<and> j = 2 then elem t [b, 1] else 0))"
  using assms
  by (auto simp: translation_matrix_def chunk2_def bind_result_def iadd_col_def
      narrow_last_def repeat_batch_def identity_matrix_def Let_def)

lemma slice_2x3_top_left:
  assumes "shape M = [B, 3, 3]"
  shows "\<exists>A. slice_2x3 M = Inr A \<and> top_left_2x3 A M"
  using assms by (simp add: slice_2x3_def Let_def top_left_2x3_def)

lemma translation_matrix_shape:
  assumes "translation_matrix t = Inr M"
  shows "shape M = [shape t ! 0, 3, 3]"
  using assms
  by (auto simp: translation_matrix_def bind_result_def iadd_col_def repeat_batch_def
      identity_matrix_def Let_def split: list.splits sum.splits if_splits prod.splits)

lemma rotation_matrix_ok:
  assumes "shape angle = [B]" "shape center = [B, 2]"
  shows "\<exists>M. rotation_matrix rot2d angle center = Inr M \<and> shape M = [B, 3, 3] \<and>
     (\<forall>b<B. \<forall>j<3.
        elem M [b, 0, j] = rot2d (elem center [b, 0]) (elem center [b, 1]) (elem angle [b]) 1 0 j \<and>
        elem M [b, 1, j] = rot2d (elem center [b, 0]) (elem center [b, 1]) (elem angle [b]) 1 1 j \<and>
        elem M [b, 2, j] = (if j = 2 then 1 else 0))"
  using assms
  by (auto simp: rotation_matrix_def get_rotation_matrix2d_def bind_result_def ones_like_def
      convert_matrix2d_to_homogeneous_def pad_row_def incr_last_def Let_def)

lemma rotation_matrix_shape:
  assumes "rotation_matrix rot2d angle center = Inr M"
  shows "shape M = [shape angle ! 0, 3, 3]"
  using assms
  by (auto simp: rotation_matrix_def get_rotation_matrix2d_def bind_result_def ones_like_def
      convert_matrix2d_to_homogeneous_def pad_row_def incr_last_def Let_def
      split: list.splits sum.splits if_splits)

lemma rotate_checks_never_TypeError:
  "rotate_checks (PyTensor t) (PyTensor a) center \<noteq> Inl TypeError"
  by (simp add: rotate_checks_def is_tensor_def)

subsection \<open>Evaluation at small tensors\<close>

lemma upt9: "[0..<9] = [0, 1, 2, 3, 4, 5, 6, 7, 8]"
  by (simp add: upt_rec)

lemma upt2: "[0..<2] = [0, 1]"
  by (simp add: upt_rec)

lemma identity_matrix_data:
  "identity_matrix = \<lparr>shape = [1, 3, 3], data = [1, 0, 0, 0, 1, 0, 0, 0, 1]\<rparr>"
  by (simp add: identity_matrix_def tabulate_def upt9)

lemma repeat_identity_1:
  "repeat_batch 1 identity_matrix = \<lparr>shape = [1, 3, 3], data = [1, 0, 0, 0, 1, 0, 0, 0, 1]\<rparr>"
  by (simp add: identity_matrix_data repeat_batch_def tabulate_def upt9 elem_def)

lemma chunk2_1x2:
  "chunk2 \<lparr>shape = [1, 2], data = [dx, dy]\<rparr> =
     Inr (\<lparr>shape = [1, 1], data = [dx]\<rparr>, \<lparr>shape = [1, 1], data = [dy]\<rparr>)"
  by (simp add: chunk2_def narrow_last_def tabulate_def elem_def Let_def)

lemma iadd_col_0:
  "iadd_col 0 \<lparr>shape = [1, 3, 3], data = [a, b, c, d, e, f, g, h, i]\<rparr>
      \<lparr>shape = [1, 1], data = [x]\<rparr> =
   Inr \<lparr>shape = [1, 3, 3], data = [a, b, c + x, d, e, f, g, h, i]\<rparr>"
  by (simp add: iadd_col_def tabulate_def elem_def Let_def upt9)

lemma iadd_col_1:
  "iadd_col 1 \<lparr>shape = [1, 3, 3], data = [a, b, c, d, e, f, g, h, i]\<rparr>
      \<lparr>shape = [1, 1], data = [x]\<rparr> =
   Inr \<lparr>shape = [1, 3, 3], data = [a, b, c, d, e, f + x, g, h, i]\<rparr>"
  by (simp add: iadd_col_def tabulate_def elem_def Let_def upt9)

lemma translation_matrix_1x2:
  "translation_matrix \<lparr>shape = [1, 2], data = [dx, dy]\<rparr> =
     Inr \<lparr>shape = [1, 3, 3], data = [1, 0, dx, 0, 1, dy, 0, 0, 1]\<rparr>"
  by (simp add: translation_matrix_def chunk2_1x2 bind_result_def repeat_identity_1
      iadd_col_0 iadd_col_1 del: One_nat_def)


lemma translation_matrix_empty_vectors:
  "translation_matrix \<lparr>shape = [1, 0], data = []\<rparr> = Inl RuntimeError"
  by (simp add: translation_matrix_def chunk2_def narrow_last_def bind_result_def
      iadd_col_def Let_def)

lemma matmul_3x3_col:
  "matmul \<lparr>shape = [1, 3, 3], data = [a, b, c, d, e, f, g, h, i]\<rparr>
          \<lparr>shape = [1, 3, 1], data = [x, y, z]\<rparr> =
     Inr \<lparr>shape = [1, 3, 1],
          data = [a * x + b * y + c * z, d * x + e * y + f * z, g * x + h * y + i * z]\<rparr>"
  by (simp add: matmul_def Let_def broadcast_shapes_def broadcast_index_def tabulate_def
      upt3 numeral_2_eq_2)

lemma matmul_inner_mismatch:
  assumes "shape x = [B, 3, 1]" "shape M = [B', 3, 3]"
  shows "matmul x M = Inl RuntimeError"
  using assms by (simp add: matmul_def Let_def)

subsection \<open>One call of the random rotation\<close>

lemma uniform_fill_range:
  assumes "lo \<le> hi" and "\<forall>k. 0 \<le> rng k \<and> rng k < 1"
    and "x \<in> set (data (uniform_fill rng lo hi t))"
  shows "lo \<le> x \<and> x \<le> hi"
proof -
  from assms(3) obtain k where x: "x = lo + rng k * (hi - lo)"
    by (auto simp: uniform_fill_def)
  from assms(2) have u: "0 \<le> rng k" "rng k \<le> 1" by (simp_all add: less_imp_le)
  from assms(1) have d: "0 \<le> hi - lo" by simp
  have "0 \<le> rng k * (hi - lo)" using u(1) d by simp
  moreover have "rng k * (hi - lo) \<le> 1 * (hi - lo)"
    using u(2) d by (rule mult_right_mono)
  ultimately show ?thesis using x by simp
qed

lemma RandomRotationMatrix_generate_params_shape:
  "RandomRotationMatrix_generate_params rng self num_samples = Inr angle \<Longrightarrow> shape angle = [1]"
  by (auto simp: RandomRotationMatrix_generate_params_def bind_result_def uniform_fill_def
      split: sum.splits prod.splits)

lemma RandomRotationMatrix_forward_matmul_order:
  assumes b: "tolist_bounds (rrm_degrees self) = Inr (lo, hi)"
    and c: "rrm_center self = Some c" "shape c = [1, 2]"
    and x: "length (shape input) = 3"
  shows "\<exists>a M. shape a = [1] \<and> shape M = [1, 3, 3] \<and>
     rotation_matrix rot2d a c = Inr M \<and>
     RandomRotationMatrix_forward rot2d rng self input =
       (matmul input M, self\<lparr>rrm_angle := Some a, rrm_matrix := Some M\<rparr>)"
proof -
  let ?a = "uniform_fill rng lo hi \<lparr>shape = [1], data = [real (shape input ! 0)]\<rparr>"
  have a: "RandomRotationMatrix_generate_params rng self (shape input ! 0) = Inr ?a"
    using b by (simp add: RandomRotationMatrix_generate_params_def bind_result_def)
  have sa: "shape ?a = [1]" by (simp add: uniform_fill_def)
  from rotation_matrix_ok [OF sa c(2), of rot2d] obtain M where
    M: "rotation_matrix rot2d ?a c = Inr M" "shape M = [1, 3, 3]"
    by blast
  have "RandomRotationMatrix_forward rot2d rng self input =
       (matmul input M, self\<lparr>rrm_angle := Some ?a, rrm_matrix := Some M\<rparr>)"
    using x c(1) a M(1)
    by (simp add: RandomRotationMatrix_forward_def RandomRotationMatrix_generate_matrix_def)
  with sa M show ?thesis by blast
qed

subsection \<open>The constructor of RandomRotationMatrix\<close>

lemma RandomRotationMatrix_init_ValueError_iff:
  "RandomRotationMatrix_init degrees center = Inl ValueError \<longleftrightarrow>
     (shape degrees = [1] \<and> data degrees ! 0 < 0) \<or> length (shape degrees) \<notin> {1, 2}"
  by (cases "shape degrees"; cases "tl (shape degrees)")
     (auto simp: RandomRotationMatrix_init_def bind_result_def bool_lt0_def numel_def)

text \<open>
  C4. The constructor of RandomRotationMatrix is claimed to raise ValueError exactly for a
  negative scalar bound or a sequence that is not of length 2, and otherwise to configure
  the range. The code tests the rank of \<open>degrees\<close> where its message speaks of the length:
  the explicit pair \<open>tensor([-10., 10.])\<close> has rank 1, takes the scalar branch and fails in
  \<open>bool(degrees < 0)\<close> with RuntimeError; the non-negative scalar \<open>tensor(5.)\<close> of rank 0 is
  rejected with ValueError; the sequence of length 3 \<open>tensor([[1.], [2.], [3.]])\<close> has
  rank 2 and is accepted.
\<close>

theorem RandomRotationMatrix_init_checks_rank:
  "RandomRotationMatrix_init \<lparr>shape = [2], data = [-10, 10]\<rparr> None = Inl RuntimeError
   \<and> RandomRotationMatrix_init \<lparr>shape = [], data = [5]\<rparr> None = Inl ValueError
   \<and> RandomRotationMatrix_init \<lparr>shape = [3, 1], data = [1, 2, 3]\<rparr> None =
       Inr \<lparr>rrm_degrees = \<lparr>shape = [3, 1], data = [1, 2, 3]\<rparr>, rrm_center = None,
            rrm_angle = None, rrm_matrix = None\<rparr>"
  by (simp add: RandomRotationMatrix_init_def bind_result_def bool_lt0_def numel_def)

subsection \<open>Translation matrices\<close>

text \<open>
  C9. For every batch of translation 2-vectors \<open>(dx, dy)\<close>, a tensor of shape \<open>(B, 2)\<close>,
  \<open>translation_matrix\<close> returns \<open>B\<close> matrices of size 3x3, each the identity with \<open>dx\<close>
  added at entry \<open>(0, 2)\<close> and \<open>dy\<close> at entry \<open>(1, 2)\<close>; the product of these matrices
  with a homogeneous point \<open>(x, y, 1)\<close> is \<open>(x + dx, y + dy, 1)\<close>, both for one point
  given as a vector and for a batch of points given as columns.
\<close>

theorem translation_matrix_translates:
  assumes "shape t = [B, 2]"
  shows "\<exists>M. translation_matrix t = Inr M \<and> shape M = [B, 3, 3] \<and>
     (\<forall>b<B. \<forall>i<3. \<forall>j<3. elem M [b, i, j] =
        (if i = j then 1 else 0) +
        (if i = 0 \<and> j = 2 then elem t [b, 0] else if i = 1 \<and> j = 2 then elem t [b, 1] else 0)) \<and>
     (\<forall>x y. \<exists>q. matmul M \<lparr>shape = [3], data = [x, y, 1]\<rparr> = Inr q \<and> shape q = [B, 3] \<and>
        (\<forall>b<B. elem q [b, 0] = x + elem t [b, 0] \<and> elem q [b, 1] = y + elem t [b, 1] \<and>
                elem q [b, 2] = 1)) \<and>
     (\<forall>p. shape p = [B, 3, 1] \<and> (\<forall>b<B. elem p [b, 2, 0] = 1) \<longrightarrow>
        (\<exists>q. matmul M p = Inr q \<and> shape q = [B, 3, 1] \<and>
           (\<forall>b<B. elem q [b, 0, 0] = elem p [b, 0, 0] + elem t [b, 0] \<and>
                   elem q [b, 1, 0] = elem p [b, 1, 0] + elem t [b, 1] \<and>
                   elem q [b, 2, 0] = 1)))"
proof -
  from translation_matrix_B2 [OF assms] obtain M where
    M: "translation_matrix t = Inr M" and sM: "shape M = [B, 3, 3]" and
    eM': "\<forall>b<B. \<forall>i<3. \<forall>j<3. elem M [b, i, j] =
        (if i = j then 1 else 0) +
        (if i = 0 \<and> j = 2 then elem t [b, 0] else if i = 1 \<and> j = 2 then elem t [b, 1] else 0)"
    by (elim exE conjE)
  have eM: "elem M [b, i, j] =
        (if i = j then 1 else 0) +
        (if i = 0 \<and> j = 2 then elem t [b, 0] else if i = 1 \<and> j = 2 then elem t [b, 1] else 0)"
    if "b < B" "i < 3" "j < 3" for b i j
    using eM' that by simp
  have vec: "\<exists>q. matmul M \<lparr>shape = [3], data = [x, y, 1]\<rparr> = Inr q \<and> shape q = [B, 3] \<and>
        (\<forall>b<B. elem q [b, 0] = x + elem t [b, 0] \<and> elem q [b, 1] = y + elem t [b, 1] \<and>
                elem q [b, 2] = 1)" for x y
  proof -
    let ?p = "\<lparr>shape = [3], data = [x, y, 1]\<rparr>"
    have sp: "shape ?p = [3]" by simp
    have ep: "elem ?p [0] = x" "elem ?p [Suc 0] = y" "elem ?p [2] = 1"
      by (simp_all add: elem_def)
    from matmul_vec [OF sM sp] obtain q where
      q: "matmul M ?p = Inr q" "shape q = [B, 3]" and
      eq: "\<forall>b<B. \<forall>i<3. elem q [b, i] =
        elem M [b, i, 0] * elem ?p [0] + elem M [b, i, 1] * elem ?p [1] + elem M [b, i, 2] * elem ?p [2]"
      by (elim exE conjE)
    have "\<forall>b<B. elem q [b, 0] = x + elem t [b, 0] \<and> elem q [b, 1] = y + elem t [b, 1] \<and>
          elem q [b, 2] = 1"
      using eq by (simp add: eM ep)
    with q show ?thesis by (intro exI conjI)
  qed
  have col: "\<exists>q. matmul M p = Inr q \<and> shape q = [B, 3, 1] \<and>
           (\<forall>b<B. elem q [b, 0, 0] = elem p [b, 0, 0] + elem t [b, 0] \<and>
                   elem q [b, 1, 0] = elem p [b, 1, 0] + elem t [b, 1] \<and>
                   elem q [b, 2, 0] = 1)"
    if sp: "shape p = [B, 3, 1]" and one: "\<forall>b<B. elem p [b, 2, 0] = 1" for p
  proof -
    from matmul_col [OF sM sp] obtain q where
      q: "matmul M p = Inr q" "shape q = [B, 3, 1]" and
      eq: "\<forall>b<B. \<forall>i<3. elem q [b, i, 0] =
        elem M [b, i, 0] * elem p [b, 0, 0] + elem M [b, i, 1] * elem p [b, 1, 0]
        + elem M [b, i, 2] * elem p [b, 2, 0]"
      by (elim exE conjE)
    have "\<forall>b<B. elem q [b, 0, 0] = elem p [b, 0, 0] + elem t [b, 0] \<and>
          elem q [b, 1, 0] = elem p [b, 1, 0] + elem t [b, 1] \<and>
          elem q [b, 2, 0] = 1"
      using eq one by (simp add: eM)
    with q show ?thesis by (intro exI conjI)
  qed
  have vec': "\<forall>x y. \<exists>q. matmul M \<lparr>shape = [3], data = [x, y, 1]\<rparr> = Inr q \<and> shape q = [B, 3] \<and>
        (\<forall>b<B. elem q [b, 0] = x + elem t [b, 0] \<and> elem q [b, 1] = y + elem t [b, 1] \<and>
                elem q [b, 2] = 1)"
    by (intro allI) (rule vec)
  have col': "\<forall>p. shape p = [B, 3, 1] \<and> (\<forall>b<B. elem p [b, 2, 0] = 1) \<longrightarrow>
        (\<exists>q. matmul M p = Inr q \<and> shape q = [B, 3, 1] \<and>
           (\<forall>b<B. elem q [b, 0, 0] = elem p [b, 0, 0] + elem t [b, 0] \<and>
                   elem q [b, 1, 0] = elem p [b, 1, 0] + elem t [b, 1] \<and>
                   elem q [b, 2, 0] = 1))"
  proof (intro allI impI)
    fix p assume "shape p = [B, 3, 1] \<and> (\<forall>b<B. elem p [b, 2, 0] = 1)"
    then have "shape p = [B, 3, 1]" "\<forall>b<B. elem p [b, 2, 0] = 1" by simp_all
    then show "\<exists>q. matmul M p = Inr q \<and> shape q = [B, 3, 1] \<and>
           (\<forall>b<B. elem q [b, 0, 0] = elem p [b, 0, 0] + elem t [b, 0] \<and>
                   elem q [b, 1, 0] = elem p [b, 1, 0] + elem t [b, 1] \<and>
                   elem q [b, 2, 0] = 1)" by (rule col)
  qed
  show ?thesis
    apply (rule exI [of _ M])
    apply (intro conjI)
        apply (rule M)
       apply (rule sM)
      apply (rule eM')
     apply (rule vec')
    apply (rule col')
    done
qed

theorem translation_matrix_translates_witness:
  "shape \<lparr>shape = [1, 2], data = [5, 7]\<rparr> = [1, 2] \<and>
   shape \<lparr>shape = [1, 3, 1], data = [2, 3, 1]\<rparr> = [1, 3, 1] \<and>
   elem \<lparr>shape = [1, 3, 1], data = [2, 3, 1]\<rparr> [0, 2, 0] = 1 \<and>
   (\<exists>M. translation_matrix \<lparr>shape = [1, 2], data = [5, 7]\<rparr> = Inr M \<and> shape M = [1, 3, 3] \<and>
      elem M [0, 0, 0] = 1 \<and> elem M [0, 0, 2] = 5 \<and> elem M [0, 1, 2] = 7 \<and>
      (\<exists>q. matmul M \<lparr>shape = [3], data = [2, 3, 1]\<rparr> = Inr q \<and> shape q = [1, 3] \<and>
         elem q [0, 0] = 7 \<and> elem q [0, 1] = 10 \<and> elem q [0, 2] = 1) \<and>
      (\<exists>q. matmul M \<lparr>shape = [1, 3, 1], data = [2, 3, 1]\<rparr> = Inr q \<and> shape q = [1, 3, 1] \<and>
         elem q [0, 0, 0] = 7 \<and> elem q [0, 1, 0] = 10 \<and> elem q [0, 2, 0] = 1))"
proof -
  let ?t = "\<lparr>shape = [1, 2], data = [5, 7]\<rparr>"
  let ?p = "\<lparr>shape = [1, 3, 1], data = [2, 3, 1]\<rparr>"
  have s: "shape ?t = [1, 2]" by simp
  have e: "elem ?t [0, 0] = 5" "elem ?t [0, Suc 0] = 7" by (simp_all add: elem_def)
  have sp: "shape ?p = [1, 3, 1]" by simp
  have ep: "elem ?p [0, 0, 0] = 2" "elem ?p [0, Suc 0, 0] = 3" "elem ?p [0, 2, 0] = 1"
    by (simp_all add: elem_def)
  from translation_matrix_translates [OF s] obtain M where
    big: "translation_matrix ?t = Inr M \<and> shape M = [1, 3, 3] \<and>
     (\<forall>b<1. \<forall>i<3. \<forall>j<3. elem M [b, i, j] =
        (if i = j then 1 else 0) +
        (if i = 0 \<and> j = 2 then elem ?t [b, 0] else if i = 1 \<and> j = 2 then elem ?t [b, 1] else 0)) \<and>
     (\<forall>x y. \<exists>q. matmul M \<lparr>shape = [3], data = [x, y, 1]\<rparr> = Inr q \<and> shape q = [1, 3] \<and>
        (\<forall>b<1. elem q [b, 0] = x + elem ?t [b, 0] \<and> elem q [b, 1] = y + elem ?t [b, 1] \<and>
                elem q [b, 2] = 1)) \<and>
     (\<forall>p. shape p = [1, 3, 1] \<and> (\<forall>b<1. elem p [b, 2, 0] = 1) \<longrightarrow>
        (\<exists>q. matmul M p = Inr q \<and> shape q = [1, 3, 1] \<and>
           (\<forall>b<1. elem q [b, 0, 0] = elem p [b, 0, 0] + elem ?t [b, 0] \<and>
                   elem q [b, 1, 0] = elem p [b, 1, 0] + elem ?t [b, 1] \<and>
                   elem q [b, 2, 0] = 1)))" ..
  note M = big [THEN conjunct1] big [THEN conjunct2, THEN conjunct1]
  note eM = big [THEN conjunct2, THEN conjunct2, THEN conjunct1]
  note v = big [THEN conjunct2, THEN conjunct2, THEN conjunct2, THEN conjunct1]
  note c = big [THEN conjunct2, THEN conjunct2, THEN conjunct2, THEN conjunct2]
  from v [rule_format, of 2 3] obtain q where
    q: "matmul M \<lparr>shape = [3], data = [2, 3, 1]\<rparr> = Inr q" "shape q = [1, 3]" and
    eq: "\<forall>b<1. elem q [b, 0] = 2 + elem ?t [b, 0] \<and> elem q [b, 1] = 3 + elem ?t [b, 1] \<and>
                elem q [b, 2] = 1"
    by (elim exE conjE)
  have pre: "shape ?p = [1, 3, 1] \<and> (\<forall>b<1. elem ?p [b, 2, 0] = 1)"
    using ep by simp
  from c [THEN spec, of ?p, THEN mp, OF pre] obtain q' where
    q': "matmul M ?p = Inr q'" "shape q' = [1, 3, 1]" and
    eq': "\<forall>b<1. elem q' [b, 0, 0] = elem ?p [b, 0, 0] + elem ?t [b, 0] \<and>
                 elem q' [b, 1, 0] = elem ?p [b, 1, 0] + elem ?t [b, 1] \<and>
                 elem q' [b, 2, 0] = 1"
    by (elim exE conjE)
  have m: "elem M [0, 0, 0] = 1" "elem M [0, 0, 2] = 5" "elem M [0, 1, 2] = 7"
    using eM e by simp_all
  have r: "elem q [0, 0] = 7" "elem q [0, 1] = 10" "elem q [0, 2] = 1"
    using eq e by simp_all
  have r': "elem q' [0, 0, 0] = 7" "elem q' [0, 1, 0] = 10" "elem q' [0, 2, 0] = 1"
    using eq' e ep by simp_all
  from q r have vec: "\<exists>q. matmul M \<lparr>shape = [3], data = [2, 3, 1]\<rparr> = Inr q \<and> shape q = [1, 3] \<and>
         elem q [0, 0] = 7 \<and> elem q [0, 1] = 10 \<and> elem q [0, 2] = 1"
    by (intro exI conjI)
  from q' r' have col: "\<exists>q. matmul M ?p = Inr q \<and> shape q = [1, 3, 1] \<and>
         elem q [0, 0, 0] = 7 \<and> elem q [0, 1, 0] = 10 \<and> elem q [0, 2, 0] = 1"
    by (intro exI conjI)
  from M m vec col have inner: "translation_matrix ?t = Inr M \<and> shape M = [1, 3, 3] \<and>
      elem M [0, 0, 0] = 1 \<and> elem M [0, 0, 2] = 5 \<and> elem M [0, 1, 2] = 7 \<and>
      (\<exists>q. matmul M \<lparr>shape = [3], data = [2, 3, 1]\<rparr> = Inr q \<and> shape q = [1, 3] \<and>
         elem q [0, 0] = 7 \<and> elem q [0, 1] = 10 \<and> elem q [0, 2] = 1) \<and>
      (\<exists>q. matmul M ?p = Inr q \<and> shape q = [1, 3, 1] \<and>
         elem q [0, 0, 0] = 7 \<and> elem q [0, 1, 0] = 10 \<and> elem q [0, 2, 0] = 1)"
    by (intro conjI)
  show ?thesis
    apply (intro conjI)
       apply (rule s)
      apply (rule sp)
     apply (rule ep(3))
    apply (rule exI [of _ M])
    apply (rule inner)
    done
qed

subsection \<open>Rotation matrices\<close>

text \<open>
  C5. For every angle batch and center batch whose batch sizes (their first dimensions)
  differ, \<open>rotation_matrix(angle, center)\<close> fails with a shape error. The failure is the
  one of \<open>get_rotation_matrix2d\<close>; \<open>rotation_matrix\<close> itself checks nothing.
\<close>

theorem rotation_matrix_batch_mismatch:
  assumes "shape angle = Ba # sa" and "shape center = Bc # sc" and "Ba \<noteq> Bc"
  shows "rotation_matrix rot2d angle center = Inl ShapeError"
  using assms
  by (auto simp: rotation_matrix_def get_rotation_matrix2d_def bind_result_def
      split: list.splits)

theorem rotation_matrix_batch_mismatch_witness:
  "shape \<lparr>shape = [2], data = [0, 90]\<rparr> = [2] \<and>
   shape \<lparr>shape = [3, 2], data = [1, 1, 1, 1, 1, 1]\<rparr> = [3, 2] \<and> (2::nat) \<noteq> 3 \<and>
   rotation_matrix (\<lambda>cx cy a s i j. 0) \<lparr>shape = [2], data = [0, 90]\<rparr>
     \<lparr>shape = [3, 2], data = [1, 1, 1, 1, 1, 1]\<rparr> = Inl ShapeError"
  using rotation_matrix_batch_mismatch
    [of "\<lparr>shape = [2], data = [0, 90]\<rparr>" 2 "[]" "\<lparr>shape = [3, 2], data = [1, 1, 1, 1, 1, 1]\<rparr>" 3 "[2]"
        "\<lambda>cx cy a s i j. 0"]
  by simp

subsection \<open>The warp\<close>

text \<open>
  C7. For every tensor of rank 3, \<open>affine(tensor, matrix)\<close> adds a batch dimension of size
  1, calls the warp primitive with the matrix and with the output size \<open>(H, W)\<close> of the
  input, removes the batch dimension again and returns a tensor of rank 3 with the shape
  of the input; for every tensor of rank 4 the warp is called on the tensor itself and
  the shape of the result is the shape of the input.
\<close>

theorem affine_keeps_shape:
  "(ndimension t = 3 \<longrightarrow>
      shape (unsqueeze0 t) = 1 # shape t \<and>
      affine resample t m =
        squeeze0 (warp_affine resample (unsqueeze0 t) m [shape t ! 1, shape t ! 2]) \<and>
      ndimension (affine resample t m) = 3 \<and>
      shape (affine resample t m) = shape t) \<and>
   (ndimension t = 4 \<longrightarrow>
      affine resample t m = warp_affine resample t m [shape t ! 2, shape t ! 3] \<and>
      shape (affine resample t m) = shape t)"
proof (intro conjI impI)
  assume r: "ndimension t = 3"
  then obtain C H W where s: "shape t = [C, H, W]"
    by (cases "shape t"; cases "tl (shape t)"; cases "tl (tl (shape t))")
       (auto simp: ndimension_def)
  show "shape (unsqueeze0 t) = 1 # shape t" by (simp add: unsqueeze0_def)
  show "affine resample t m =
        squeeze0 (warp_affine resample (unsqueeze0 t) m [shape t ! 1, shape t ! 2])"
    using s by (simp add: affine_def ndimension_def unsqueeze0_def Let_def)
  show "ndimension (affine resample t m) = 3"
    using s
    by (simp add: affine_def ndimension_def unsqueeze0_def squeeze0_def warp_affine_def
        tabulate_def Let_def)
  show "shape (affine resample t m) = shape t"
    using s
    by (simp add: affine_def ndimension_def unsqueeze0_def squeeze0_def warp_affine_def
        tabulate_def Let_def)
next
  assume r: "ndimension t = 4"
  then obtain B C H W where s: "shape t = [B, C, H, W]"
    by (cases "shape t"; cases "tl (shape t)"; cases "tl (tl (shape t))";
        cases "tl (tl (tl (shape t)))") (auto simp: ndimension_def)
  show "affine resample t m = warp_affine resample t m [shape t ! 2, shape t ! 3]"
    using s by (simp add: affine_def ndimension_def Let_def)
  show "shape (affine resample t m) = shape t"
    using s by (simp add: affine_def ndimension_def warp_affine_def Let_def)
qed

theorem affine_keeps_shape_witness:
  "ndimension \<lparr>shape = [1, 2, 2], data = [1, 2, 3, 4]\<rparr> = 3 \<and>
   shape (affine (\<lambda>src M dsize idx. 0) \<lparr>shape = [1, 2, 2], data = [1, 2, 3, 4]\<rparr>
            \<lparr>shape = [1, 2, 3], data = [1, 0, 0, 0, 1, 0]\<rparr>) = [1, 2, 2] \<and>
   ndimension \<lparr>shape = [2, 1, 1, 2], data = [1, 2, 3, 4]\<rparr> = 4 \<and>
   shape (affine (\<lambda>src M dsize idx. 0) \<lparr>shape = [2, 1, 1, 2], data = [1, 2, 3, 4]\<rparr>
            \<lparr>shape = [2, 2, 3], data = [1, 0, 0, 0, 1, 0, 1, 0, 0, 0, 1, 0]\<rparr>) = [2, 1, 1, 2]"
proof -
  let ?k = "\<lambda>(src::tensor) (M::tensor) (dsize::nat list) (idx::nat list). 0::real"
  let ?t3 = "\<lparr>shape = [1, 2, 2], data = [1, 2, 3, 4]\<rparr>"
  let ?m3 = "\<lparr>shape = [1, 2, 3], data = [1, 0, 0, 0, 1, 0]\<rparr>"
  let ?t4 = "\<lparr>shape = [2, 1, 1, 2], data = [1, 2, 3, 4]\<rparr>"
  let ?m4 = "\<lparr>shape = [2, 2, 3], data = [1, 0, 0, 0, 1, 0, 1, 0, 0, 0, 1, 0]\<rparr>"
  have r3: "ndimension ?t3 = 3" and r4: "ndimension ?t4 = 4"
    by (simp_all add: ndimension_def)
  from affine_keeps_shape [of ?t3 ?k ?m3] r3
  have s3: "shape (affine ?k ?t3 ?m3) = shape ?t3" by blast
  from affine_keeps_shape [of ?t4 ?k ?m4] r4
  have s4: "shape (affine ?k ?t4 ?m4) = shape ?t4" by blast
  from r3 r4 s3 s4 show ?thesis by simp
qed

subsection \<open>The method affine of the wrappers\<close>

text \<open>
  C8. For each of the four matrix wrappers, \<open>affine()\<close> fails with AssertionError while no
  matrix is stored, and returns the top-left 2x3 submatrix of every stored 3x3 matrix
  once one is stored. A random wrapper stores no matrix when it is constructed, so its
  \<open>affine()\<close> fails before the first call of \<open>forward\<close>.
\<close>

theorem wrappers_affine:
  "(tm_matrix tm = None \<longrightarrow> TranslationMatrix_affine tm = Inl AssertionError) \<and>
   (tm_matrix tm = Some M \<and> shape M = [B, 3, 3] \<longrightarrow>
      (\<exists>A. TranslationMatrix_affine tm = Inr A \<and> top_left_2x3 A M)) \<and>
   (rm_matrix rm = None \<longrightarrow> RotationMatrix_affine rm = Inl AssertionError) \<and>
   (rm_matrix rm = Some M \<and> shape M = [B, 3, 3] \<longrightarrow>
      (\<exists>A. RotationMatrix_affine rm = Inr A \<and> top_left_2x3 A M)) \<and>
   (rrm_matrix rrm = None \<longrightarrow> RandomRotationMatrix_affine rrm = Inl AssertionError) \<and>
   (rrm_matrix rrm = Some M \<and> shape M = [B, 3, 3] \<longrightarrow>
      (\<exists>A. RandomRotationMatrix_affine rrm = Inr A \<and> top_left_2x3 A M)) \<and>
   (rtm_matrix rtm = None \<longrightarrow> RandomTranslationMatrix_affine rtm = Inl AssertionError) \<and>
   (rtm_matrix rtm = Some M \<and> shape M = [B, 3, 3] \<longrightarrow>
      (\<exists>A. RandomTranslationMatrix_affine rtm = Inr A \<and> top_left_2x3 A M)) \<and>
   (RandomRotationMatrix_init degrees center = Inr rrm0 \<longrightarrow>
      RandomRotationMatrix_affine rrm0 = Inl AssertionError) \<and>
   (RandomTranslationMatrix_init translation = Inr rtm0 \<longrightarrow>
      RandomTranslationMatrix_affine rtm0 = Inl AssertionError)"
proof -
  have none:
    "tm_matrix tm = None \<longrightarrow> TranslationMatrix_affine tm = Inl AssertionError"
    "rm_matrix rm = None \<longrightarrow> RotationMatrix_affine rm = Inl AssertionError"
    "rrm_matrix rrm = None \<longrightarrow> RandomRotationMatrix_affine rrm = Inl AssertionError"
    "rtm_matrix rtm = None \<longrightarrow> RandomTranslationMatrix_affine rtm = Inl AssertionError"
    by (simp_all add: TranslationMatrix_affine_def RotationMatrix_affine_def
        RandomRotationMatrix_affine_def RandomTranslationMatrix_affine_def)
  have some:
    "tm_matrix tm = Some M \<and> shape M = [B, 3, 3] \<longrightarrow>
      (\<exists>A. TranslationMatrix_affine tm = Inr A \<and> top_left_2x3 A M)"
    "rm_matrix rm = Some M \<and> shape M = [B, 3, 3] \<longrightarrow>
      (\<exists>A. RotationMatrix_affine rm = Inr A \<and> top_left_2x3 A M)"
    "rrm_matrix rrm = Some M \<and> shape M = [B, 3, 3] \<longrightarrow>
      (\<exists>A. RandomRotationMatrix_affine rrm = Inr A \<and> top_left_2x3 A M)"
    "rtm_matrix rtm = Some M \<and> shape M = [B, 3, 3] \<longrightarrow>
      (\<exists>A. RandomTranslationMatrix_affine rtm = Inr A \<and> top_left_2x3 A M)"
    using slice_2x3_top_left [of M B]
    by (simp_all add: TranslationMatrix_affine_def RotationMatrix_affine_def
        RandomRotationMatrix_affine_def RandomTranslationMatrix_affine_def)
  have fresh_rrm: "RandomRotationMatrix_init degrees center = Inr rrm0 \<longrightarrow>
      RandomRotationMatrix_affine rrm0 = Inl AssertionError"
    by (auto simp: RandomRotationMatrix_init_def RandomRotationMatrix_affine_def
        bind_result_def split: if_splits sum.splits)
  have fresh_rtm: "RandomTranslationMatrix_init translation = Inr rtm0 \<longrightarrow>
      RandomTranslationMatrix_affine rtm0 = Inl AssertionError"
    by (auto simp: RandomTranslationMatrix_init_def RandomTranslationMatrix_affine_def
        split: if_splits)
  from none some fresh_rrm fresh_rtm show ?thesis by (intro conjI)
qed

theorem wrappers_affine_witness:
  "TranslationMatrix_affine \<lparr>tm_translation = None, tm_matrix = None\<rparr> = Inl AssertionError \<and>
   RotationMatrix_affine \<lparr>rm_angle = None, rm_center = None, rm_matrix = None\<rparr>
     = Inl AssertionError \<and>
   RandomRotationMatrix_init \<lparr>shape = [1], data = [10]\<rparr> None =
     Inr \<lparr>rrm_degrees = \<lparr>shape = [2], data = [-10, 10]\<rparr>, rrm_center = None,
          rrm_angle = None, rrm_matrix = None\<rparr> \<and>
   RandomRotationMatrix_affine
     \<lparr>rrm_degrees = \<lparr>shape = [2], data = [-10, 10]\<rparr>, rrm_center = None,
      rrm_angle = None, rrm_matrix = None\<rparr> = Inl AssertionError \<and>
   RandomTranslationMatrix_init \<lparr>shape = [2], data = [-3, 7]\<rparr> =
     Inr \<lparr>rtm_translation = \<lparr>shape = [2], data = [-3, 7]\<rparr>, rtm_matrix = None\<rparr> \<and>
   RandomTranslationMatrix_affine
     \<lparr>rtm_translation = \<lparr>shape = [2], data = [-3, 7]\<rparr>, rtm_matrix = None\<rparr>
     = Inl AssertionError \<and>
   (\<exists>A. TranslationMatrix_affine
          \<lparr>tm_translation = None,
           tm_matrix = Some \<lparr>shape = [1, 3, 3], data = [1, 0, 5, 0, 1, 7, 0, 0, 1]\<rparr>\<rparr> = Inr A \<and>
        shape A = [1, 2, 3] \<and> elem A [0, 0, 2] = 5 \<and> elem A [0, 1, 2] = 7) \<and>
   (\<exists>A. RotationMatrix_affine
          \<lparr>rm_angle = None, rm_center = None,
           rm_matrix = Some \<lparr>shape = [1, 3, 3], data = [1, 0, 5, 0, 1, 7, 0, 0, 1]\<rparr>\<rparr> = Inr A \<and>
        shape A = [1, 2, 3] \<and> elem A [0, 0, 2] = 5 \<and> elem A [0, 1, 2] = 7) \<and>
   (\<exists>A. RandomRotationMatrix_affine
          \<lparr>rrm_degrees = \<lparr>shape = [2], data = [-10, 10]\<rparr>, rrm_center = None,
           rrm_angle = None,
           rrm_matrix = Some \<lparr>shape = [1, 3, 3], data = [1, 0, 5, 0, 1, 7, 0, 0, 1]\<rparr>\<rparr> = Inr A \<and>
        shape A = [1, 2, 3] \<and> elem A [0, 0, 2] = 5 \<and> elem A [0, 1, 2] = 7) \<and>
   (\<exists>A. RandomTranslationMatrix_affine
          \<lparr>rtm_translation = \<lparr>shape = [2], data = [-3, 7]\<rparr>,
           rtm_matrix = Some \<lparr>shape = [1, 3, 3], data = [1, 0, 5, 0, 1, 7, 0, 0, 1]\<rparr>\<rparr> = Inr A \<and>
        shape A = [1, 2, 3] \<and> elem A [0, 0, 2] = 5 \<and> elem A [0, 1, 2] = 7)"
proof -
  let ?M = "\<lparr>shape = [1, 3, 3], data = [1, 0, 5, 0, 1, 7, 0, 0, 1]\<rparr>"
  let ?d = "\<lparr>shape = [1], data = [10]\<rparr>"
  let ?dd = "\<lparr>shape = [2], data = [-10, 10]\<rparr>"
  let ?tr = "\<lparr>shape = [2], data = [-3, 7]\<rparr>"
  let ?tm0 = "\<lparr>tm_translation = None, tm_matrix = None\<rparr>"
  let ?rm0 = "\<lparr>rm_angle = None, rm_center = None, rm_matrix = None\<rparr>"
  let ?rrm0 = "\<lparr>rrm_degrees = ?dd, rrm_center = None, rrm_angle = None, rrm_matrix = None\<rparr>"
  let ?rtm0 = "\<lparr>rtm_translation = ?tr, rtm_matrix = None\<rparr>"
  let ?tm1 = "\<lparr>tm_translation = None, tm_matrix = Some ?M\<rparr>"
  let ?rm1 = "\<lparr>rm_angle = None, rm_center = None, rm_matrix = Some ?M\<rparr>"
  let ?rrm1 = "\<lparr>rrm_degrees = ?dd, rrm_center = None, rrm_angle = None, rrm_matrix = Some ?M\<rparr>"
  let ?rtm1 = "\<lparr>rtm_translation = ?tr, rtm_matrix = Some ?M\<rparr>"
  have i1: "RandomRotationMatrix_init ?d None = Inr ?rrm0"
    by (simp add: RandomRotationMatrix_init_def bind_result_def bool_lt0_def numel_def
        cat_def neg_def)
  have i2: "RandomTranslationMatrix_init ?tr = Inr ?rtm0"
    by (simp add: RandomTranslationMatrix_init_def)
  have eM: "elem ?M [0, 0, 2] = 5" "elem ?M [0, 1, 2] = 7"
    by (simp_all add: elem_def)
  have tl: "shape A = [1, 2, 3] \<and> elem A [0, 0, 2] = 5 \<and> elem A [0, 1, 2] = 7"
    if "top_left_2x3 A ?M" for A
    using that eM by (simp add: top_left_2x3_def)
  note w0 = wrappers_affine [of ?tm0 ?M 1 ?rm0 ?rrm0 ?rtm0 ?d None ?rrm0 ?tr ?rtm0]
  note w1 = wrappers_affine [of ?tm1 ?M 1 ?rm1 ?rrm1 ?rtm1 ?d None ?rrm0 ?tr ?rtm0]
  have a0: "TranslationMatrix_affine ?tm0 = Inl AssertionError"
    "RotationMatrix_affine ?rm0 = Inl AssertionError"
    "RandomRotationMatrix_affine ?rrm0 = Inl AssertionError"
    "RandomTranslationMatrix_affine ?rtm0 = Inl AssertionError"
    using w0 i1 i2 by simp_all
  have a1: "\<exists>A. TranslationMatrix_affine ?tm1 = Inr A \<and> top_left_2x3 A ?M"
    "\<exists>A. RotationMatrix_affine ?rm1 = Inr A \<and> top_left_2x3 A ?M"
    "\<exists>A. RandomRotationMatrix_affine ?rrm1 = Inr A \<and> top_left_2x3 A ?M"
    "\<exists>A. RandomTranslationMatrix_affine ?rtm1 = Inr A \<and> top_left_2x3 A ?M"
    using w1 by simp_all
  have b1: "\<exists>A. TranslationMatrix_affine ?tm1 = Inr A \<and>
        shape A = [1, 2, 3] \<and> elem A [0, 0, 2] = 5 \<and> elem A [0, 1, 2] = 7"
    "\<exists>A. RotationMatrix_affine ?rm1 = Inr A \<and>
        shape A = [1, 2, 3] \<and> elem A [0, 0, 2] = 5 \<and> elem A [0, 1, 2] = 7"
    "\<exists>A. RandomRotationMatrix_affine ?rrm1 = Inr A \<and>
        shape A = [1, 2, 3] \<and> elem A [0, 0, 2] = 5 \<and> elem A [0, 1, 2] = 7"
    "\<exists>A. RandomTranslationMatrix_affine ?rtm1 = Inr A \<and>
        shape A = [1, 2, 3] \<and> elem A [0, 0, 2] = 5 \<and> elem A [0, 1, 2] = 7"
    using a1 tl by blast+
  from a0 i1 i2 b1 show ?thesis by (intro conjI)
qed

subsection \<open>RandomRotationMatrix without a center\<close>

text \<open>
  C10. A RandomRotationMatrix constructed without a center has the center \<open>None\<close> and no
  stored matrix. Every call of \<open>forward\<close> on it, whatever the input and the draws, fails
  with AssertionError and leaves the object as it was, so the same holds for every
  sequence of calls; once a center is assigned, a call with an input of rank 3 no longer
  fails with AssertionError.
\<close>

theorem RandomRotationMatrix_without_center:
  assumes "RandomRotationMatrix_init degrees None = Inr self"
  shows "rrm_center self = None \<and> rrm_matrix self = None \<and>
    (\<forall>rot2d rng input.
       RandomRotationMatrix_forward rot2d rng self input = (Inl AssertionError, self)) \<and>
    (\<forall>rot2d calls.
       RandomRotationMatrix_forward_calls rot2d self calls =
         (replicate (length calls) (Inl AssertionError), self)) \<and>
    (\<forall>rot2d rng c input. length (shape input) = 3 \<longrightarrow>
       fst (RandomRotationMatrix_forward rot2d rng (self\<lparr>rrm_center := Some c\<rparr>) input)
         \<noteq> Inl AssertionError)"
proof -
  from assms have c: "rrm_center self = None" and m: "rrm_matrix self = None"
    by (auto simp: RandomRotationMatrix_init_def bind_result_def split: if_splits sum.splits)
  have f: "RandomRotationMatrix_forward rot2d rng self input = (Inl AssertionError, self)"
    for rot2d rng input
    using c by (simp add: RandomRotationMatrix_forward_def)
  have fc: "RandomRotationMatrix_forward_calls rot2d self calls =
         (replicate (length calls) (Inl AssertionError), self)" for rot2d calls
    by (induction calls) (auto simp: f)
  have g: "fst (RandomRotationMatrix_forward rot2d rng (self\<lparr>rrm_center := Some c\<rparr>) input)
         \<noteq> Inl AssertionError" if "length (shape input) = 3" for rot2d rng c input
    using that
    by (auto simp: RandomRotationMatrix_forward_def RandomRotationMatrix_generate_matrix_def
        RandomRotationMatrix_generate_params_def tolist_bounds_def bind_result_def
        rotation_matrix_def get_rotation_matrix2d_def convert_matrix2d_to_homogeneous_def
        pad_row_def incr_last_def matmul_def Let_def
        split: list.splits sum.splits if_splits prod.splits option.splits)
  from c m f fc g show ?thesis by blast
qed

theorem RandomRotationMatrix_without_center_witness:
  "RandomRotationMatrix_init \<lparr>shape = [1], data = [10]\<rparr> None =
     Inr \<lparr>rrm_degrees = \<lparr>shape = [2], data = [-10, 10]\<rparr>, rrm_center = None,
          rrm_angle = None, rrm_matrix = None\<rparr> \<and>
   RandomRotationMatrix_forward (\<lambda>cx cy angle scale i j. 0) (\<lambda>k. 1 / 2)
     \<lparr>rrm_degrees = \<lparr>shape = [2], data = [-10, 10]\<rparr>, rrm_center = None,
      rrm_angle = None, rrm_matrix = None\<rparr>
     \<lparr>shape = [1, 3, 1], data = [2, 3, 1]\<rparr> =
     (Inl AssertionError,
      \<lparr>rrm_degrees = \<lparr>shape = [2], data = [-10, 10]\<rparr>, rrm_center = None,
       rrm_angle = None, rrm_matrix = None\<rparr>) \<and>
   RandomRotationMatrix_forward_calls (\<lambda>cx cy angle scale i j. 0)
     \<lparr>rrm_degrees = \<lparr>shape = [2], data = [-10, 10]\<rparr>, rrm_center = None,
      rrm_angle = None, rrm_matrix = None\<rparr>
     [(\<lambda>k. 1 / 2, \<lparr>shape = [1, 3, 1], data = [2, 3, 1]\<rparr>),
      (\<lambda>k. 1 / 4, \<lparr>shape = [1, 3, 1], data = [2, 3, 1]\<rparr>)] =
     ([Inl AssertionError, Inl AssertionError],
      \<lparr>rrm_degrees = \<lparr>shape = [2], data = [-10, 10]\<rparr>, rrm_center = None,
       rrm_angle = None, rrm_matrix = None\<rparr>) \<and>
   length (shape \<lparr>shape = [1, 3, 1], data = [2, 3, 1]\<rparr>) = 3 \<and>
   fst (RandomRotationMatrix_forward (\<lambda>cx cy angle scale i j. 0) (\<lambda>k. 1 / 2)
     (\<lparr>rrm_degrees = \<lparr>shape = [2], data = [-10, 10]\<rparr>, rrm_center = None,
       rrm_angle = None, rrm_matrix = None\<rparr>
        \<lparr>rrm_center := Some \<lparr>shape = [1, 2], data = [1, 1]\<rparr>\<rparr>)
     \<lparr>shape = [1, 3, 1], data = [2, 3, 1]\<rparr>) \<noteq> Inl AssertionError"
proof -
  let ?self = "\<lparr>rrm_degrees = \<lparr>shape = [2], data = [-10, 10]\<rparr>, rrm_center = None,
          rrm_angle = None, rrm_matrix = None\<rparr>"
  let ?x = "\<lparr>shape = [1, 3, 1], data = [2, 3, 1]\<rparr>"
  let ?rot = "\<lambda>(cx::real) (cy::real) (angle::real) (scale::real) (i::nat) (j::nat). 0::real"
  have i: "RandomRotationMatrix_init \<lparr>shape = [1], data = [10]\<rparr> None = Inr ?self"
    by (simp add: RandomRotationMatrix_init_def bind_result_def bool_lt0_def numel_def
        cat_def neg_def)
  have l: "length (shape ?x) = 3" by simp
  note w = RandomRotationMatrix_without_center [OF i]
  from w have f: "RandomRotationMatrix_forward ?rot (\<lambda>k. 1 / 2) ?self ?x =
      (Inl AssertionError, ?self)"
    by blast
  from w have fc: "RandomRotationMatrix_forward_calls ?rot ?self
      [(\<lambda>k. 1 / 2, ?x), (\<lambda>k. 1 / 4, ?x)] =
      (replicate (length [(\<lambda>k::nat. 1 / 2 :: real, ?x), (\<lambda>k. 1 / 4, ?x)])
         (Inl AssertionError), ?self)"
    by blast
  from w l have g: "fst (RandomRotationMatrix_forward ?rot (\<lambda>k. 1 / 2)
      (?self\<lparr>rrm_center := Some \<lparr>shape = [1, 2], data = [1, 1]\<rparr>\<rparr>) ?x) \<noteq> Inl AssertionError"
    by blast
  have fc': "RandomRotationMatrix_forward_calls ?rot ?self
      [(\<lambda>k. 1 / 2, ?x), (\<lambda>k. 1 / 4, ?x)] =
      ([Inl AssertionError, Inl AssertionError], ?self)"
    unfolding fc by (simp add: numeral_2_eq_2)
  from i f fc' l g show ?thesis by (intro conjI)
qed

subsection \<open>The checks of rotate\<close>

text \<open>
  C2. A call of \<open>rotate\<close> whose tensor and angle are tensors and whose center is neither a
  tensor nor \<open>None\<close> is claimed to raise TypeError. The third check of \<open>rotate\<close> tests the
  angle a second time where its message speaks of the center, so no call with a tensor
  and an angle of tensor type raises TypeError in the checks; with the center
  \<open>(0.5, 0.5)\<close> given as a tuple the call goes on to \<open>center.expand\<close> and raises
  AttributeError.
\<close>

theorem rotate_center_not_checked:
  "rotate_checks (PyTensor t) (PyTensor a) center \<noteq> Inl TypeError \<and>
   rotate_tensor rot2d resample
     (PyTensor \<lparr>shape = [1, 2, 2], data = [1, 2, 3, 4]\<rparr>)
     (PyTensor \<lparr>shape = [1], data = [90]\<rparr>)
     (PyTuple [1 / 2, 1 / 2]) = Inl AttributeError"
  by (simp add: rotate_checks_def is_tensor_def rotate_tensor_def bind_result_def)

lemma rotate_checks_ValueError_iff:
  "rotate_checks (PyTensor t) (PyTensor a) center = Inl ValueError \<longleftrightarrow>
      length (shape t) \<notin> {3, 4} \<or>
      (length (shape t) = 4 \<and> shape a \<noteq> [] \<and> shape a ! 0 \<noteq> shape t ! 0) \<or>
      (length (shape t) = 3 \<and> length (shape a) \<noteq> 1)"
  by (auto simp: rotate_checks_def is_tensor_def)


subsection \<open>The calls of the random wrappers\<close>

text \<open>
  C1. Each call of \<open>forward\<close> of a RandomRotationMatrix on an input of batch size \<open>B\<close> is
  claimed to sample \<open>B\<close> angles, one for each element of the batch. \<open>_generate_params\<close>
  fills \<open>torch.tensor([float(num_samples)])\<close>, a tensor of the one element
  \<open>num_samples\<close>, so the angle tensor has one element for every \<open>num_samples\<close>, where
  the sibling RandomTranslationMatrix fills \<open>torch.zeros(num_samples, 2)\<close>. For the bound
  10, a center for each of two batch elements and an input of shape \<open>(2, 3, 3)\<close>, the
  call stores one angle and fails in \<open>get_rotation_matrix2d\<close> on the batch sizes 1 and 2,
  so no matrix is stored; with a single center the call stores one angle and one matrix
  for both elements of the batch.
\<close>

theorem RandomRotationMatrix_samples_one_angle:
  "RandomRotationMatrix_init \<lparr>shape = [1], data = [10]\<rparr>
       (Some \<lparr>shape = [2, 2], data = [1, 1, 1, 1]\<rparr>) =
     Inr \<lparr>rrm_degrees = \<lparr>shape = [2], data = [-10, 10]\<rparr>,
          rrm_center = Some \<lparr>shape = [2, 2], data = [1, 1, 1, 1]\<rparr>,
          rrm_angle = None, rrm_matrix = None\<rparr> \<and>
   RandomRotationMatrix_generate_params rng
       \<lparr>rrm_degrees = \<lparr>shape = [2], data = [-10, 10]\<rparr>,
        rrm_center = Some \<lparr>shape = [2, 2], data = [1, 1, 1, 1]\<rparr>,
        rrm_angle = None, rrm_matrix = None\<rparr> num_samples =
     Inr \<lparr>shape = [1], data = [-10 + rng 0 * 20]\<rparr> \<and>
   RandomRotationMatrix_forward rot2d rng
       \<lparr>rrm_degrees = \<lparr>shape = [2], data = [-10, 10]\<rparr>,
        rrm_center = Some \<lparr>shape = [2, 2], data = [1, 1, 1, 1]\<rparr>,
        rrm_angle = None, rrm_matrix = None\<rparr>
       \<lparr>shape = [2, 3, 3], data = [1, 0, 0, 0, 1, 0, 0, 0, 1, 1, 0, 0, 0, 1, 0, 0, 0, 1]\<rparr> =
     (Inl ShapeError,
      \<lparr>rrm_degrees = \<lparr>shape = [2], data = [-10, 10]\<rparr>,
       rrm_center = Some \<lparr>shape = [2, 2], data = [1, 1, 1, 1]\<rparr>,
       rrm_angle = Some \<lparr>shape = [1], data = [-10 + rng 0 * 20]\<rparr>, rrm_matrix = None\<rparr>) \<and>
   (\<exists>a M. shape a = [1] \<and> shape M = [1, 3, 3] \<and>
      snd (RandomRotationMatrix_forward rot2d rng
        \<lparr>rrm_degrees = \<lparr>shape = [2], data = [-10, 10]\<rparr>,
         rrm_center = Some \<lparr>shape = [1, 2], data = [1, 1]\<rparr>,
         rrm_angle = None, rrm_matrix = None\<rparr>
        \<lparr>shape = [2, 3, 3], data = [1, 0, 0, 0, 1, 0, 0, 0, 1, 1, 0, 0, 0, 1, 0, 0, 0, 1]\<rparr>) =
      \<lparr>rrm_degrees = \<lparr>shape = [2], data = [-10, 10]\<rparr>,
       rrm_center = Some \<lparr>shape = [1, 2], data = [1, 1]\<rparr>,
       rrm_angle = Some a, rrm_matrix = Some M\<rparr>)"
proof -
  let ?x = "\<lparr>shape = [2, 3, 3],
             data = [1, 0, 0, 0, 1, 0, 0, 0, 1, 1, 0, 0, 0, 1, 0, 0, 0, 1]\<rparr>"
  let ?c = "\<lparr>shape = [1, 2], data = [1, 1]\<rparr>"
  let ?self = "\<lparr>rrm_degrees = \<lparr>shape = [2], data = [-10, 10]\<rparr>, rrm_center = Some ?c,
         rrm_angle = None, rrm_matrix = None\<rparr>"
  have two: "RandomRotationMatrix_init \<lparr>shape = [1], data = [10]\<rparr>
       (Some \<lparr>shape = [2, 2], data = [1, 1, 1, 1]\<rparr>) =
     Inr \<lparr>rrm_degrees = \<lparr>shape = [2], data = [-10, 10]\<rparr>,
          rrm_center = Some \<lparr>shape = [2, 2], data = [1, 1, 1, 1]\<rparr>,
          rrm_angle = None, rrm_matrix = None\<rparr> \<and>
   RandomRotationMatrix_generate_params rng
       \<lparr>rrm_degrees = \<lparr>shape = [2], data = [-10, 10]\<rparr>,
        rrm_center = Some \<lparr>shape = [2, 2], data = [1, 1, 1, 1]\<rparr>,
        rrm_angle = None, rrm_matrix = None\<rparr> num_samples =
     Inr \<lparr>shape = [1], data = [-10 + rng 0 * 20]\<rparr> \<and>
   RandomRotationMatrix_forward rot2d rng
       \<lparr>rrm_degrees = \<lparr>shape = [2], data = [-10, 10]\<rparr>,
        rrm_center = Some \<lparr>shape = [2, 2], data = [1, 1, 1, 1]\<rparr>,
        rrm_angle = None, rrm_matrix = None\<rparr> ?x =
     (Inl ShapeError,
      \<lparr>rrm_degrees = \<lparr>shape = [2], data = [-10, 10]\<rparr>,
       rrm_center = Some \<lparr>shape = [2, 2], data = [1, 1, 1, 1]\<rparr>,
       rrm_angle = Some \<lparr>shape = [1], data = [-10 + rng 0 * 20]\<rparr>, rrm_matrix = None\<rparr>)"
    by (simp add: RandomRotationMatrix_init_def bind_result_def bool_lt0_def numel_def
        cat_def neg_def RandomRotationMatrix_generate_params_def tolist_bounds_def
        uniform_fill_def RandomRotationMatrix_forward_def
        RandomRotationMatrix_generate_matrix_def rotation_matrix_def
        get_rotation_matrix2d_def)
  have b: "tolist_bounds (rrm_degrees ?self) = Inr (-10, 10)"
    by (simp add: tolist_bounds_def)
  from RandomRotationMatrix_forward_matmul_order [OF b, of ?c ?x rot2d rng]
  obtain a M where aM: "shape a = [1]" "shape M = [1, 3, 3]"
    "RandomRotationMatrix_forward rot2d rng ?self ?x =
       (matmul ?x M, ?self\<lparr>rrm_angle := Some a, rrm_matrix := Some M\<rparr>)"
    by auto
  from aM(3) have "snd (RandomRotationMatrix_forward rot2d rng ?self ?x) =
      \<lparr>rrm_degrees = \<lparr>shape = [2], data = [-10, 10]\<rparr>, rrm_center = Some ?c,
       rrm_angle = Some a, rrm_matrix = Some M\<rparr>"
    by simp
  with aM(1,2) have one: "\<exists>a M. shape a = [1] \<and> shape M = [1, 3, 3] \<and>
      snd (RandomRotationMatrix_forward rot2d rng ?self ?x) =
      \<lparr>rrm_degrees = \<lparr>shape = [2], data = [-10, 10]\<rparr>, rrm_center = Some ?c,
       rrm_angle = Some a, rrm_matrix = Some M\<rparr>"
    by blast
  from two one show ?thesis by (intro conjI) simp_all
qed

text \<open>
  C3. \<open>forward\<close> of every matrix wrapper is claimed to return the product \<open>M x\<close> of the
  stored matrix with the input. TranslationMatrix and RotationMatrix return
  \<open>torch.matmul(self.matrix, input)\<close>; the two random wrappers return
  \<open>torch.matmul(input, self.matrix)\<close>, the product in the other order. For the
  homogeneous point \<open>(2, 3, 1)\<close> given as a column, RandomTranslationMatrix with the bound 1
  generates the matrix \<open>M\<close> of the translation \<open>(dx, dy)\<close> and fails with RuntimeError on
  the inner dimensions 1 and 3, while \<open>M x\<close> is the point \<open>(2 + dx, 3 + dy, 1)\<close> that
  TranslationMatrix returns for the same matrix; RandomRotationMatrix with a matrix already
  stored fails on the same input in the same way.
\<close>

theorem random_wrappers_multiply_on_the_right:
  "let dx = -1 + rng 0 * 2; dy = -1 + rng 1 * 2;
       T = \<lparr>shape = [1, 2], data = [dx, dy]\<rparr>;
       M = \<lparr>shape = [1, 3, 3], data = [1, 0, dx, 0, 1, dy, 0, 0, 1]\<rparr>;
       x = \<lparr>shape = [1, 3, 1], data = [2, 3, 1]\<rparr>;
       Mx = \<lparr>shape = [1, 3, 1], data = [2 + dx, 3 + dy, 1]\<rparr>;
       rtm = \<lparr>rtm_translation = \<lparr>shape = [2], data = [-1, 1]\<rparr>, rtm_matrix = None\<rparr>;
       rrm = \<lparr>rrm_degrees = \<lparr>shape = [2], data = [-10, 10]\<rparr>,
              rrm_center = Some \<lparr>shape = [1, 2], data = [1, 1]\<rparr>,
              rrm_angle = Some \<lparr>shape = [1], data = [0]\<rparr>,
              rrm_matrix = Some \<lparr>shape = [1, 3, 3], data = [1, 0, 0, 0, 1, 0, 0, 0, 1]\<rparr>\<rparr>
   in RandomTranslationMatrix_init \<lparr>shape = [1], data = [1]\<rparr> = Inr rtm \<and>
      RandomTranslationMatrix_forward rng rtm x =
        (Inl RuntimeError, \<lparr>rtm_translation = T, rtm_matrix = Some M\<rparr>) \<and>
      matmul M x = Inr Mx \<and>
      TranslationMatrix_init (Some T) = Inr \<lparr>tm_translation = Some T, tm_matrix = Some M\<rparr> \<and>
      TranslationMatrix_forward \<lparr>tm_translation = Some T, tm_matrix = Some M\<rparr> x = Inr Mx \<and>
      fst (RandomRotationMatrix_forward rot2d rng rrm x) = Inl RuntimeError"
proof -
  define dx dy where "dx = -1 + rng 0 * 2" and "dy = -1 + rng 1 * 2"
  let ?T = "\<lparr>shape = [1, 2], data = [dx, dy]\<rparr>"
  let ?M = "\<lparr>shape = [1, 3, 3], data = [1, 0, dx, 0, 1, dy, 0, 0, 1]\<rparr>"
  let ?x = "\<lparr>shape = [1, 3, 1], data = [2, 3, 1]\<rparr>"
  let ?Mx = "\<lparr>shape = [1, 3, 1], data = [2 + dx, 3 + dy, 1]\<rparr>"
  let ?rtm = "\<lparr>rtm_translation = \<lparr>shape = [2], data = [-1, 1]\<rparr>, rtm_matrix = None\<rparr>"
  let ?rrm = "\<lparr>rrm_degrees = \<lparr>shape = [2], data = [-10, 10]\<rparr>,
              rrm_center = Some \<lparr>shape = [1, 2], data = [1, 1]\<rparr>,
              rrm_angle = Some \<lparr>shape = [1], data = [0]\<rparr>,
              rrm_matrix = Some \<lparr>shape = [1, 3, 3], data = [1, 0, 0, 0, 1, 0, 0, 0, 1]\<rparr>\<rparr>"
  have i: "RandomTranslationMatrix_init \<lparr>shape = [1], data = [1]\<rparr> = Inr ?rtm"
    by (simp add: RandomTranslationMatrix_init_def cat_def neg_def numel_def)
  have p: "RandomTranslationMatrix_generate_params rng ?rtm 1 = Inr ?T"
    by (simp add: RandomTranslationMatrix_generate_params_def tolist_bounds_def
        bind_result_def uniform_fill_def numel_def upt2 dx_def dy_def)
  have tm: "translation_matrix ?T = Inr ?M" by (rule translation_matrix_1x2)
  have xm: "matmul ?x ?M = Inl RuntimeError"
    by (rule matmul_inner_mismatch [of _ 1 _ 1]) simp_all
  have f: "RandomTranslationMatrix_forward rng ?rtm ?x =
        (Inl RuntimeError, \<lparr>rtm_translation = ?T, rtm_matrix = Some ?M\<rparr>)"
    using p tm xm
    by (simp add: RandomTranslationMatrix_forward_def
        RandomTranslationMatrix_generate_matrix_def del: One_nat_def)
  have mx: "matmul ?M ?x = Inr ?Mx"
    by (simp add: matmul_3x3_col del: One_nat_def)
  have ti: "TranslationMatrix_init (Some ?T) = Inr \<lparr>tm_translation = Some ?T, tm_matrix = Some ?M\<rparr>"
    using tm
    by (simp add: TranslationMatrix_init_def TranslationMatrix_generate_matrix_def
        bind_result_def del: One_nat_def)
  have tf: "TranslationMatrix_forward \<lparr>tm_translation = Some ?T, tm_matrix = Some ?M\<rparr> ?x = Inr ?Mx"
    using mx by (simp add: TranslationMatrix_forward_def del: One_nat_def)
  have b: "tolist_bounds (rrm_degrees ?rrm) = Inr (-10, 10)"
    by (simp add: tolist_bounds_def)
  from RandomRotationMatrix_forward_matmul_order
    [OF b, of "\<lparr>shape = [1, 2], data = [1, 1]\<rparr>" ?x rot2d rng]
  obtain a M' where M': "shape M' = [1, 3, 3]"
    "RandomRotationMatrix_forward rot2d rng ?rrm ?x =
       (matmul ?x M', ?rrm\<lparr>rrm_angle := Some a, rrm_matrix := Some M'\<rparr>)"
    by auto
  have "matmul ?x M' = Inl RuntimeError"
    by (rule matmul_inner_mismatch [of _ 1 _ 1]) (simp_all add: M'(1))
  with M'(2) have rf: "fst (RandomRotationMatrix_forward rot2d rng ?rrm ?x) = Inl RuntimeError"
    by simp
  from i f mx ti tf rf show ?thesis
    unfolding Let_def dx_def dy_def by (intro conjI)
qed

end
